theory Spec2Isabelle
  imports Main "HOL-Library.Sublist"
begin

section \<open>Python values, exceptions and the observable world\<close>

text \<open>
  The frontend of xESMF (\<^verbatim>\<open>xesmf/frontend.py\<close>) is embedded function by function.
  Exceptions are values of \<open>py_error\<close>; a computation that prints, touches the
  weight file or calls a collaborator takes the world and returns the new world together
  with either the exception that left it or its result.
\<close>

datatype pyval = PyNone | PyStr string | PyTuple "pyval list"

datatype py_error =
    ValueError string
  | AssertionError string
  | TypeError string
  | UnboundLocalError string
  | AttributeError string
  | KeyError pyval
  | NotImplementedError string
  | IOError string

datatype event =
    Print string
  | Remove string
  | Call_esmf_grid
  | Call_add_corner
  | Call_esmf_regrid_build string string
  | Call_esmf_regrid_finalize
  | Call_read_weights string nat nat
  | Call_apply_weights nat nat

text \<open>
  A weight file holds the triples (row, column, weight) of the sparse matrix. The world
  is the set of weight files on disk and the sequence of everything observable that
  happened: lines printed, files removed, collaborators called.
\<close>

record 'a world =
  files :: "string \<rightharpoonup> (nat \<times> nat \<times> 'a) list"
  trace :: "event list"

type_synonym ('a, 'r) comp = "'a world \<Rightarrow> 'a world \<times> (py_error + 'r)"

definition ret :: "'r \<Rightarrow> ('a, 'r) comp" where
  "ret x w = (w, Inr x)"

definition raise :: "py_error \<Rightarrow> ('a, 'r) comp" where
  "raise e w = (w, Inl e)"

definition lift :: "py_error + 'r \<Rightarrow> ('a, 'r) comp" where
  "lift v w = (w, v)"

definition andthen :: "('a, 'r) comp \<Rightarrow> ('r \<Rightarrow> ('a, 's) comp) \<Rightarrow> ('a, 's) comp" where
  "andthen m f w = (case m w of (w', Inl e) \<Rightarrow> (w', Inl e) | (w', Inr x) \<Rightarrow> f x w')"

definition emit :: "event \<Rightarrow> ('a, unit) comp" where
  "emit ev w = (w\<lparr>trace := trace w @ [ev]\<rparr>, Inr ())"

definition print :: "string \<Rightarrow> ('a, unit) comp" where
  "print s = emit (Print s)"

subsection \<open>Formatting\<close>

definition digit_char :: "nat \<Rightarrow> char" where
  "digit_char d = ''0123456789'' ! d"

fun str_nat :: "nat \<Rightarrow> string" where
  "str_nat n = (if n < 10 then [digit_char n] else str_nat (n div 10) @ [digit_char (n mod 10)])"

declare str_nat.simps [simp del]

text \<open>Python's \<^verbatim>\<open>str\<close> of a tuple of integers: \<^verbatim>\<open>()\<close>, \<^verbatim>\<open>(4,)\<close>, \<^verbatim>\<open>(3, 4)\<close>.\<close>

fun join_comma :: "string list \<Rightarrow> string" where
  "join_comma [] = []"
| "join_comma [s] = s"
| "join_comma (s # t # ss) = s @ '', '' @ join_comma (t # ss)"

definition str_tuple :: "nat list \<Rightarrow> string" where
  "str_tuple ns =
     (case ns of
        [] \<Rightarrow> ''()''
      | [n] \<Rightarrow> ''('' @ str_nat n @ '',)''
      | _ \<Rightarrow> ''('' @ join_comma (map str_nat ns) @ '')'')"

section \<open>Arrays\<close>

text \<open>
  A numpy array is its shape and its elements in C order. The element type is left
  open: the frontend copies elements; only the sparse multiply of the codec adds and
  multiplies them, and xarray counts the positions along a dimension in it.
\<close>

record 'a ndarray =
  shape :: "nat list"
  data :: "'a list"

definition ndim :: "'a ndarray \<Rightarrow> nat" where
  "ndim a = length (shape a)"

definition wf_array :: "'a ndarray \<Rightarrow> bool" where
  "wf_array a = (length (data a) = prod_list (shape a))"

text \<open>All index tuples of a shape, in C order, and the flat position of one of them.\<close>

fun indices :: "nat list \<Rightarrow> nat list list" where
  "indices [] = [[]]"
| "indices (n # ns) = concat (map (\<lambda>i. map ((#) i) (indices ns)) [0..<n])"

definition flat_index :: "nat list \<Rightarrow> nat list \<Rightarrow> nat" where
  "flat_index sh ix = foldl (\<lambda>acc (n, i). acc * n + i) 0 (zip sh ix)"

text \<open>\<^verbatim>\<open>a.T\<close>: the axes reversed.\<close>

definition nd_T :: "'a ndarray \<Rightarrow> 'a ndarray" where
  "nd_T a =
     \<lparr>shape = rev (shape a),
      data = map (\<lambda>ix. data a ! flat_index (shape a) (rev ix)) (indices (rev (shape a)))\<rparr>"

text \<open>
  \<^verbatim>\<open>np.meshgrid(x, y)\<close> on two vectors, with numpy's default \<^verbatim>\<open>indexing='xy'\<close>:
  both results have shape \<^verbatim>\<open>(y.size, x.size)\<close>; the first repeats \<open>x\<close> in every
  row, the second repeats each element of \<open>y\<close> along its row.
\<close>

definition meshgrid :: "'a ndarray \<Rightarrow> 'a ndarray \<Rightarrow> 'a ndarray \<times> 'a ndarray" where
  "meshgrid x y =
     (let nx = prod_list (shape x); ny = prod_list (shape y) in
      (\<lparr>shape = [ny, nx], data = concat (replicate ny (data x))\<rparr>,
       \<lparr>shape = [ny, nx], data = concat (map (replicate nx) (data y))\<rparr>))"

text \<open>Row \<open>i\<close> (\<^verbatim>\<open>a[i, :]\<close>) and column \<open>j\<close> (\<^verbatim>\<open>a[:, j]\<close>) of a 2-D array.\<close>

definition row :: "'a ndarray \<Rightarrow> nat \<Rightarrow> 'a list" where
  "row a i = (let nx = shape a ! 1 in take nx (drop (i * nx) (data a)))"

definition col :: "'a ndarray \<Rightarrow> nat \<Rightarrow> 'a list" where
  "col a j = (let ny = shape a ! 0; nx = shape a ! 1 in map (\<lambda>i. data a ! (i * nx + j)) [0..<ny])"

section \<open>Coordinate Locator and Mesh Normalizer\<close>

text \<open>
  A grid description is an xarray Dataset or a plain dictionary. A Dataset has its
  variables and the sizes of its dimensions. Each entry has its values and, when it is
  a labeled array, its dimension names (a bare numpy array has no \<^verbatim>\<open>dims\<close>
  attribute).
\<close>

record 'a variable =
  var_dims :: "string list option"
  var_values :: "'a ndarray"

datatype 'a grid_description =
    Dataset "string \<rightharpoonup> 'a variable" "string \<rightharpoonup> nat"
  | Dictionary "string \<rightharpoonup> 'a variable"

text \<open>\<^verbatim>\<open>ds.variables\<close>: only a Dataset has the attribute.\<close>

definition variables :: "'a grid_description \<Rightarrow> py_error + (string \<rightharpoonup> 'a variable)" where
  "variables ds =
     (case ds of Dataset m sz \<Rightarrow> Inr m | Dictionary m \<Rightarrow> Inl (AttributeError ''variables''))"

definition items :: "'a grid_description \<Rightarrow> (string \<rightharpoonup> 'a variable)" where
  "items ds = (case ds of Dataset m sz \<Rightarrow> m | Dictionary m \<Rightarrow> m)"

text \<open>The positions \<open>0, 1, ...\<close> along a dimension of size \<open>n\<close>.\<close>

definition positions :: "nat \<Rightarrow> ('a::semiring_1) ndarray" where
  "positions n = \<lparr>shape = [n], data = map of_nat [0..<n]\<rparr>"

text \<open>
  \<^verbatim>\<open>ds[name]\<close>; a name that was never resolved is \<^verbatim>\<open>None\<close>. For the name of a
  dimension of a Dataset that has no variable of that name, xarray gives the positions
  along the dimension.
\<close>

definition getitem :: "('a::semiring_1) grid_description \<Rightarrow> string option \<Rightarrow> py_error + 'a variable" where
  "getitem ds name =
     (case name of
        None \<Rightarrow> Inl (KeyError PyNone)
      | Some n \<Rightarrow>
          (case items ds n of
             Some v \<Rightarrow> Inr v
           | None \<Rightarrow>
               (case ds of
                  Dataset m sz \<Rightarrow>
                    (case sz n of
                       Some k \<Rightarrow> Inr \<lparr>var_dims = Some [n], var_values = positions k\<rparr>
                     | None \<Rightarrow> Inl (KeyError (PyStr n)))
                | Dictionary m \<Rightarrow> Inl (KeyError (PyStr n)))))"

definition convention_message :: string where
  "convention_message = ''Must have coordinates compliant with NETCDF COARDS or CF conventions''"

text \<open>
  The body of the \<^verbatim>\<open>try\<close> of \<^verbatim>\<open>get_latlon_name\<close>: the membership test on
  \<^verbatim>\<open>ds.variables\<close> looks at the latitude key alone, the first convention first, and
  raises \<^verbatim>\<open>ValueError\<close> when neither is there.
\<close>

definition latlon_try :: "'a grid_description \<Rightarrow> bool \<Rightarrow> py_error + string \<times> string" where
  "latlon_try ds boundary =
     (case variables ds of
        Inl e \<Rightarrow> Inl e
      | Inr vs \<Rightarrow>
          if boundary then
            (if vs ''lat_b'' \<noteq> None then Inr (''lat_b'', ''lon_b'')
             else if vs ''latitude_b'' \<noteq> None then Inr (''latitude_b'', ''longitude_b'')
             else Inl (ValueError []))
          else
            (if vs ''lat'' \<noteq> None then Inr (''lat'', ''lon'')
             else if vs ''latitude'' \<noteq> None then Inr (''latitude'', ''longitude'')
             else Inl (ValueError [])))"

text \<open>
  \<^verbatim>\<open>except ValueError\<close> prints the message and falls through to
  \<^verbatim>\<open>return lat_name, lon_name\<close>, where \<^verbatim>\<open>lat_name\<close> was never bound. Any
  other exception of the body leaves the function as it is.
\<close>

definition get_latlon_name :: "'a grid_description \<Rightarrow> bool \<Rightarrow> ('b, string \<times> string) comp" where
  "get_latlon_name ds boundary =
     (case latlon_try ds boundary of
        Inr names \<Rightarrow> ret names
      | Inl (ValueError _) \<Rightarrow>
          andthen (print convention_message) (\<lambda>_. raise (UnboundLocalError ''lat_name''))
      | Inl e \<Rightarrow> raise e)"

definition as_2d_mesh :: "'a ndarray \<Rightarrow> 'a ndarray \<Rightarrow> py_error + 'a ndarray \<times> 'a ndarray" where
  "as_2d_mesh lon lat =
     (if (ndim lon, ndim lat) = (2, 2) then
        (if shape lon = shape lat then Inr (lon, lat)
         else Inl (AssertionError ''lon and lat should have same shape''))
      else if (ndim lon, ndim lat) = (1, 1) then Inr (meshgrid lon lat)
      else Inl (ValueError ''lon and lat should be both 1D or 2D''))"

section \<open>Collaborators\<close>

text \<open>
  The grid and weight-generation library (\<^verbatim>\<open>xesmf/backend.py\<close>) is a parameter of
  the model: what it computes is outside the frontend. \<open>'g\<close> is its opaque grid handle.
  \<^verbatim>\<open>add_corner\<close> changes the grid in place; here it returns the changed handle.
  \<^verbatim>\<open>esmf_regrid_build\<close> yields the weights that the library writes to the file.
\<close>

record ('a, 'g) backend =
  esmf_grid :: "'a ndarray \<Rightarrow> 'a ndarray \<Rightarrow> bool option \<Rightarrow> py_error + 'g"
  add_corner :: "'g \<Rightarrow> 'a ndarray \<Rightarrow> 'a ndarray \<Rightarrow> py_error + 'g"
  esmf_regrid_build :: "'g \<Rightarrow> 'g \<Rightarrow> string \<Rightarrow> py_error + (nat \<times> nat \<times> 'a) list"

definition call_esmf_grid ::
  "('a, 'g) backend \<Rightarrow> 'a ndarray \<Rightarrow> 'a ndarray \<Rightarrow> bool option \<Rightarrow> ('a, 'g) comp" where
  "call_esmf_grid B lon lat periodic =
     andthen (emit Call_esmf_grid) (\<lambda>_. lift (esmf_grid B lon lat periodic))"

definition call_add_corner ::
  "('a, 'g) backend \<Rightarrow> 'g \<Rightarrow> 'a ndarray \<Rightarrow> 'a ndarray \<Rightarrow> ('a, 'g) comp" where
  "call_add_corner B grid lon_b lat_b =
     andthen (emit Call_add_corner) (\<lambda>_. lift (add_corner B grid lon_b lat_b))"

text \<open>
  Modelled from the spec: the weight-generation collaborator
  \<^verbatim>\<open>build_weights(grid_in, grid_out, method, destination_path)\<close> is missing from the
  sources; it writes the resulting weights to the target path and returns a handle,
  and its failures propagate unchanged.
\<close>

definition call_esmf_regrid_build ::
  "('a, 'g) backend \<Rightarrow> 'g \<Rightarrow> 'g \<Rightarrow> string \<Rightarrow> string \<Rightarrow> ('a, unit) comp" where
  "call_esmf_regrid_build B grid_in grid_out method filename =
     andthen (emit (Call_esmf_regrid_build method filename)) (\<lambda>_.
     andthen (lift (esmf_regrid_build B grid_in grid_out method)) (\<lambda>ws w.
       (w\<lparr>files := (files w)(filename \<mapsto> ws)\<rparr>, Inr ())))"

definition call_esmf_regrid_finalize :: "unit \<Rightarrow> ('a, unit) comp" where
  "call_esmf_regrid_finalize regrid = emit Call_esmf_regrid_finalize"

record 'a sparse_op =
  n_out :: nat
  n_in :: nat
  entries :: "(nat \<times> nat \<times> 'a) list"

text \<open>
  Modelled from the spec: the weight-file codec (\<^verbatim>\<open>xesmf/smm.py\<close>) is missing from
  the sources. \<^verbatim>\<open>load(path, n_in, n_out)\<close> reads the artifact into a sparse operator
  from length \<open>n_in\<close> to length \<open>n_out\<close>, the two sizes being there for validation;
  a missing or corrupt file is a failure of the codec.
\<close>

definition read_weights :: "string \<Rightarrow> nat \<Rightarrow> nat \<Rightarrow> ('a, 'a sparse_op) comp" where
  "read_weights filename N_in N_out =
     andthen (emit (Call_read_weights filename N_in N_out)) (\<lambda>_ w.
       (case files w filename of
          None \<Rightarrow> (w, Inl (IOError filename))
        | Some ws \<Rightarrow>
            if list_all (\<lambda>(r, c, s). r < N_out \<and> c < N_in) ws
            then (w, Inr \<lparr>n_out = N_out, n_in = N_in, entries = ws\<rparr>)
            else (w, Inl (ValueError filename))))"

text \<open>One destination field from one flattened source field.\<close>

definition spmv :: "(nat \<times> nat \<times> 'a) list \<Rightarrow> nat \<Rightarrow> 'a list \<Rightarrow> ('a::semiring_0) list" where
  "spmv es n x =
     map (\<lambda>i. sum_list (map (\<lambda>(r, c, s). if r = i \<and> c < length x then s * x ! c else 0) es)) [0..<n]"

text \<open>
  Modelled from the spec: \<^verbatim>\<open>apply(op, data, ny_out, nx_out)\<close> of the codec is missing
  from the sources; it performs the sparse operator multiply per leading-axis slice and
  returns an array whose trailing two axes are \<open>(ny_out, nx_out)\<close> and whose leading
  axes are unchanged in shape and order.
\<close>

definition apply_weights ::
  "('a::semiring_0) sparse_op \<Rightarrow> 'a ndarray \<Rightarrow> nat \<Rightarrow> nat \<Rightarrow> 'a ndarray" where
  "apply_weights A indata Ny_out Nx_out =
     (let sh = shape indata;
          extra_shape = take (length sh - 2) sh;
          n = prod_list (drop (length sh - 2) sh)
      in \<lparr>shape = extra_shape @ [Ny_out, Nx_out],
          data = concat (map (\<lambda>k. spmv (entries A) (Ny_out * Nx_out) (take n (drop (k * n) (data indata))))
                          [0..<prod_list extra_shape])\<rparr>)"

definition call_apply_weights ::
  "('a::semiring_0) sparse_op \<Rightarrow> 'a ndarray \<Rightarrow> nat \<Rightarrow> nat \<Rightarrow> ('a, 'a ndarray) comp" where
  "call_apply_weights A indata Ny_out Nx_out =
     andthen (emit (Call_apply_weights Ny_out Nx_out)) (\<lambda>_. ret (apply_weights A indata Ny_out Nx_out))"

section \<open>Grid Builder\<close>

text \<open>
  \<^verbatim>\<open>lon_name, lat_name = get_latlon_name(ds)\<close> unpacks the pair (latitude name,
  longitude name) in the other order; so does the unpacking of the boundary names.
\<close>

definition ds_to_ESMFgrid ::
  "('a::semiring_1, 'g) backend \<Rightarrow> 'a grid_description \<Rightarrow> bool \<Rightarrow> string option \<Rightarrow> string option \<Rightarrow>
   string option \<Rightarrow> string option \<Rightarrow> bool option \<Rightarrow> ('a, 'g \<times> nat list) comp" where
  "ds_to_ESMFgrid B ds need_bounds lat lon lat_b lon_b periodic =
     andthen (if lat = None \<and> lon = None
              then andthen (get_latlon_name ds False) (\<lambda>(lon_name, lat_name). ret (Some lat_name, Some lon_name))
              else ret (lat, lon)) (\<lambda>(lat_name, lon_name).
     andthen (lift (getitem ds lon_name)) (\<lambda>lon_v.
     andthen (lift (getitem ds lat_name)) (\<lambda>lat_v.
     andthen (lift (as_2d_mesh (var_values lon_v) (var_values lat_v))) (\<lambda>(lon2, lat2).
     andthen (call_esmf_grid B (nd_T lon2) (nd_T lat2) periodic) (\<lambda>grid.
     andthen (if need_bounds then
                andthen (if lat_b = None \<and> lon_b = None
                         then andthen (get_latlon_name ds True) (\<lambda>(lon_b', lat_b'). ret (Some lat_b', Some lon_b'))
                         else ret (lat_b, lon_b)) (\<lambda>(lat_b', lon_b').
                andthen (lift (getitem ds lon_b')) (\<lambda>lon_bv.
                andthen (lift (getitem ds lat_b')) (\<lambda>lat_bv.
                andthen (lift (as_2d_mesh (var_values lon_bv) (var_values lat_bv))) (\<lambda>(lon_b2, lat_b2).
                call_add_corner B grid (nd_T lon_b2) (nd_T lat_b2)))))
              else ret grid) (\<lambda>grid'.
     ret (grid', shape lon2)))))))"

section \<open>The Regridder\<close>

record ('a, 'g) Regridder =
  self_need_bounds :: bool
  self_method :: string
  self_periodic :: bool
  self_reuse_weights :: bool
  self_lat_name_in :: "string option"
  self_lon_name_in :: "string option"
  self_lat_b_name_in :: "string option"
  self_lon_b_name_in :: "string option"
  self_lat_name_out :: "string option"
  self_lon_name_out :: "string option"
  self_lat_b_name_out :: "string option"
  self_lon_b_name_out :: "string option"
  self_grid_in :: 'g
  self_grid_out :: 'g
  self_lon_out :: "'a ndarray"
  self_lat_out :: "'a ndarray"
  self_lon_dim :: "pyval option"
  self_lat_dim :: "pyval option"
  self_horiz_dims :: "pyval option"
  self_Ny_in :: nat
  self_Nx_in :: nat
  self_Ny_out :: nat
  self_Nx_out :: nat
  self_N_in :: nat
  self_N_out :: nat
  self_filename :: string
  self_A :: "'a sparse_op"

definition get_default_filename :: "('a, 'g) Regridder \<Rightarrow> string" where
  "get_default_filename self =
     (let filename = self_method self @ ''_'' @ str_nat (self_Ny_in self) @ ''x'' @ str_nat (self_Nx_in self)
                     @ ''_'' @ str_nat (self_Ny_out self) @ ''x'' @ str_nat (self_Nx_out self)
      in if self_periodic self then filename @ ''_peri.nc'' else filename @ ''.nc'')"

text \<open>
  The two arguments of the \<^verbatim>\<open>print\<close> of an overwrite, the first ending in a
  blank and a newline, joined by \<^verbatim>\<open>print\<close>'s blank.
\<close>

definition overwrite_message :: "string \<Rightarrow> string" where
  "overwrite_message f = ''Overwrite existing file: '' @ f @ [CHR '' '', CHR 0x0A, CHR '' '']
                         @ ''You can set reuse_weights=True to save computing time.''"

definition write_weight_file :: "('a, 'g) backend \<Rightarrow> ('a, 'g) Regridder \<Rightarrow> ('a, unit) comp" where
  "write_weight_file B self w =
     (let build =
            andthen (call_esmf_regrid_build B (self_grid_in self) (self_grid_out self)
                       (self_method self) (self_filename self))
                    call_esmf_regrid_finalize
      in if files w (self_filename self) \<noteq> None then
           (if self_reuse_weights self then
              print (''Reuse existing file: '' @ self_filename self) w
            else
              andthen (print (overwrite_message (self_filename self))) (\<lambda>_.
              andthen (\<lambda>w'. (w'\<lparr>files := (files w')(self_filename self := None),
                                 trace := trace w' @ [Remove (self_filename self)]\<rparr>, Inr ())) (\<lambda>_.
              build)) w)
         else
           andthen (print (''Create weight file: '' @ self_filename self)) (\<lambda>_. build) w)"

definition clean_weight_file :: "('a, 'g) Regridder \<Rightarrow> ('a, unit) comp" where
  "clean_weight_file self w =
     (if files w (self_filename self) \<noteq> None then
        andthen (print (''Remove file '' @ self_filename self)) (\<lambda>_ w'.
          (w'\<lparr>files := (files w')(self_filename self := None),
              trace := trace w' @ [Remove (self_filename self)]\<rparr>, Inr ())) w
      else print (''File '' @ self_filename self @ '' is already removed.'') w)"

subsection \<open>Construction\<close>

definition name_val :: "string option \<Rightarrow> pyval" where
  "name_val n = (case n of None \<Rightarrow> PyNone | Some s \<Rightarrow> PyStr s)"

text \<open>\<^verbatim>\<open>ds[name].dims\<close>, which a labeled array has and a bare array has not.\<close>

definition try_dims :: "('a::semiring_1) grid_description \<Rightarrow> string option \<Rightarrow> py_error + pyval" where
  "try_dims ds name =
     (case getitem ds name of
        Inl e \<Rightarrow> Inl e
      | Inr v \<Rightarrow> (case var_dims v of
                    None \<Rightarrow> Inl (AttributeError ''dims'')
                  | Some ds \<Rightarrow> Inr (PyTuple (map PyStr ds))))"

text \<open>
  The names given to one grid: the locator is asked only when both names of a pair
  were left out.
\<close>

definition resolve_names ::
  "'a grid_description \<Rightarrow> bool \<Rightarrow> string option \<Rightarrow> string option \<Rightarrow> ('b, string option \<times> string option) comp" where
  "resolve_names ds boundary lat lon =
     (if lat = None \<and> lon = None
      then andthen (get_latlon_name ds boundary) (\<lambda>(lat_name, lon_name). ret (Some lat_name, Some lon_name))
      else ret (lat, lon))"

text \<open>
  The destination dimension names (\<^verbatim>\<open>lon_dim\<close>, \<^verbatim>\<open>lat_dim\<close>, \<^verbatim>\<open>horiz_dims\<close>).
  The bare \<^verbatim>\<open>except\<close> replaces any failure of the \<^verbatim>\<open>try\<close> by the defaults. When the
  longitude field is neither 1-D nor 2-D the three attributes are not set.
\<close>

definition init_horiz_dims ::
  "('a::semiring_1) grid_description \<Rightarrow> string option \<Rightarrow> string option \<Rightarrow> 'a ndarray \<Rightarrow>
   pyval option \<times> pyval option \<times> pyval option" where
  "init_horiz_dims ds_out lat_name_out lon_name_out lon_out =
     (if ndim lon_out = 2 then
        (let d = (case try_dims ds_out lon_name_out of
                    Inr d \<Rightarrow> d
                  | Inl _ \<Rightarrow> PyTuple [PyStr ''y'', PyStr ''x''])
         in (Some d, Some d, Some d))
      else if ndim lon_out = 1 then
        (let (lon_dim, lat_dim) =
               (case (try_dims ds_out lon_name_out, try_dims ds_out lat_name_out) of
                  (Inr dlon, Inr dlat) \<Rightarrow> (dlon, dlat)
                | _ \<Rightarrow> (name_val lon_name_out, name_val lat_name_out))
         in (Some lon_dim, Some lat_dim, Some (PyTuple [lat_dim, lon_dim])))
      else (None, None, None))"

text \<open>\<^verbatim>\<open>Ny, Nx = shape\<close>\<close>

definition unpack2 :: "nat list \<Rightarrow> py_error + nat \<times> nat" where
  "unpack2 sh = (case sh of [ny, nx] \<Rightarrow> Inr (ny, nx) | _ \<Rightarrow> Inl (ValueError ''unpack''))"

definition empty_op :: "'a sparse_op" where
  "empty_op = \<lparr>n_out = 0, n_in = 0, entries = []\<rparr>"

text \<open>
  \<^verbatim>\<open>Regridder.__init__\<close>. The attributes \<^verbatim>\<open>filename\<close> and \<^verbatim>\<open>A\<close> are assigned
  last; until then the record holds the empty string and the empty operator in their
  place, which nothing reads.
\<close>

definition Regridder_init ::
  "('a::semiring_1, 'g) backend \<Rightarrow> 'a grid_description \<Rightarrow> 'a grid_description \<Rightarrow> string \<Rightarrow> bool \<Rightarrow>
   string option \<Rightarrow> bool \<Rightarrow>
   string option \<Rightarrow> string option \<Rightarrow> string option \<Rightarrow> string option \<Rightarrow>
   string option \<Rightarrow> string option \<Rightarrow> string option \<Rightarrow> string option \<Rightarrow>
   ('a, ('a, 'g) Regridder) comp" where
  "Regridder_init B ds_in ds_out method periodic filename reuse_weights
       lat_in lon_in lat_b_in lon_b_in lat_out lon_out lat_b_out lon_b_out =
     (let need_bounds = (method = ''conservative'');
          periodic' = (if method = ''conservative'' then False else periodic)
      in
      andthen (resolve_names ds_in False lat_in lon_in) (\<lambda>(lat_name_in, lon_name_in).
      andthen (resolve_names ds_in True lat_b_in lon_b_in) (\<lambda>(lat_b_name_in, lon_b_name_in).
      andthen (resolve_names ds_out False lat_out lon_out) (\<lambda>(lat_name_out, lon_name_out).
      andthen (resolve_names ds_out True lat_b_out lon_b_out) (\<lambda>(lat_b_name_out, lon_b_name_out).
      andthen (ds_to_ESMFgrid B ds_in need_bounds lat_name_in lon_name_in
                 lat_b_name_in lon_b_name_in (Some periodic')) (\<lambda>(grid_in, shape_in).
      andthen (ds_to_ESMFgrid B ds_out need_bounds lat_name_out lon_name_out
                 lat_b_name_out lon_b_name_out None) (\<lambda>(grid_out, shape_out).
      andthen (lift (getitem ds_out lon_name_out)) (\<lambda>lon_v.
      andthen (lift (getitem ds_out lat_name_out)) (\<lambda>lat_v.
      let (lon_dim, lat_dim, horiz_dims) =
            init_horiz_dims ds_out lat_name_out lon_name_out (var_values lon_v) in
      andthen (lift (unpack2 shape_in)) (\<lambda>(Ny_in, Nx_in).
      andthen (lift (unpack2 shape_out)) (\<lambda>(Ny_out, Nx_out).
      let self0 =
            \<lparr>self_need_bounds = need_bounds, self_method = method, self_periodic = periodic',
             self_reuse_weights = reuse_weights,
             self_lat_name_in = lat_name_in, self_lon_name_in = lon_name_in,
             self_lat_b_name_in = lat_b_name_in, self_lon_b_name_in = lon_b_name_in,
             self_lat_name_out = lat_name_out, self_lon_name_out = lon_name_out,
             self_lat_b_name_out = lat_b_name_out, self_lon_b_name_out = lon_b_name_out,
             self_grid_in = grid_in, self_grid_out = grid_out,
             self_lon_out = var_values lon_v, self_lat_out = var_values lat_v,
             self_lon_dim = lon_dim, self_lat_dim = lat_dim, self_horiz_dims = horiz_dims,
             self_Ny_in = Ny_in, self_Nx_in = Nx_in, self_Ny_out = Ny_out, self_Nx_out = Nx_out,
             self_N_in = Ny_in * Nx_in, self_N_out = Ny_out * Nx_out,
             self_filename = [], self_A = empty_op\<rparr>;
          self1 = self0\<lparr>self_filename :=
                    (case filename of None \<Rightarrow> get_default_filename self0 | Some f \<Rightarrow> f)\<rparr>
      in
      andthen (write_weight_file B self1) (\<lambda>_.
      andthen (read_weights (self_filename self1) (self_N_in self1) (self_N_out self1)) (\<lambda>A.
      ret (self1\<lparr>self_A := A\<rparr>))))))))))))))"

subsection \<open>Applying the weights\<close>

definition shape_mismatch_message :: "nat list \<Rightarrow> nat list \<Rightarrow> string" where
  "shape_mismatch_message shape_horiz expected =
     ''The horizontal shape of input data is '' @ str_tuple shape_horiz
     @ '', different from that ofthe regridder '' @ str_tuple expected @ ''!''"

text \<open>
  \<^verbatim>\<open>indata.shape[-2:]\<close> is the whole shape when the array has fewer than two axes.
  The \<^verbatim>\<open>assert\<close> is the one an interpreter run without \<^verbatim>\<open>-O\<close> executes.
\<close>

definition regrid_numpy ::
  "('a::semiring_1, 'g) Regridder \<Rightarrow> 'a ndarray \<Rightarrow> ('a, 'a ndarray) comp" where
  "regrid_numpy self indata =
     (let shape_horiz = drop (length (shape indata) - 2) (shape indata) in
      if shape_horiz = [self_Ny_in self, self_Nx_in self] then
        call_apply_weights (self_A self) indata (self_Ny_out self) (self_Nx_out self)
      else
        raise (AssertionError (shape_mismatch_message shape_horiz [self_Ny_in self, self_Nx_in self])))"

text \<open>
  Of xarray, what \<^verbatim>\<open>regrid_dataarray\<close> uses: a labeled array has values, dimension
  names, a name, coordinates by name and attributes. A coordinate is kept as its
  dimension names and its values.
\<close>

record 'a coord =
  c_dims :: "pyval list"
  c_values :: "'a ndarray"

record 'a dataarray =
  da_values :: "'a ndarray"
  da_dims :: "pyval list"
  da_name :: "string option"
  da_coords :: "pyval \<rightharpoonup> 'a coord"
  da_attrs :: "string \<rightharpoonup> string"

text \<open>\<^verbatim>\<open>dict(zip(dims, shape))\<close>: a repeated name keeps its last size.\<close>

definition sizes :: "pyval list \<Rightarrow> nat list \<Rightarrow> (pyval \<rightharpoonup> nat)" where
  "sizes dims sh = map_of (rev (zip dims sh))"

text \<open>
  \<^verbatim>\<open>xr.DataArray(data, dims=dims, name=name)\<close>: a single string names one dimension,
  \<^verbatim>\<open>None\<close> stands for \<^verbatim>\<open>dim_0\<close>, \<^verbatim>\<open>dim_1\<close>, ...; there must be as many names as
  axes. Releases of xarray that accept only strings as names refuse more than the model.
\<close>

definition parse_dims :: "pyval \<Rightarrow> nat \<Rightarrow> pyval list" where
  "parse_dims dims n =
     (case dims of
        PyNone \<Rightarrow> map (\<lambda>i. PyStr (''dim_'' @ str_nat i)) [0..<n]
      | PyStr s \<Rightarrow> [PyStr s]
      | PyTuple ds \<Rightarrow> ds)"

definition xr_DataArray :: "'a ndarray \<Rightarrow> pyval \<Rightarrow> string option \<Rightarrow> py_error + 'a dataarray" where
  "xr_DataArray values dims name =
     (let ds = parse_dims dims (ndim values)
      in if length ds = ndim values
         then Inr \<lparr>da_values = values, da_dims = ds, da_name = name,
                   da_coords = Map.empty, da_attrs = Map.empty\<rparr>
         else Inl (ValueError ''different number of dimensions on data and dims''))"

definition as_coord :: "'a dataarray \<Rightarrow> 'a coord" where
  "as_coord dr = \<lparr>c_dims = da_dims dr, c_values = da_values dr\<rparr>"

text \<open>
  \<^verbatim>\<open>dr.coords[key] = value\<close>, where \<open>value\<close> is a labeled array: it becomes the
  coordinate \<open>key\<close>, and the coordinates it carries itself come along; both replace
  what \<open>dr\<close> had under their names. The new coordinate may only lie along dimensions
  of \<open>dr\<close>, with the sizes \<open>dr\<close> has there.
\<close>

definition coords_setitem :: "'a dataarray \<Rightarrow> pyval \<Rightarrow> 'a dataarray \<Rightarrow> py_error + 'a dataarray" where
  "coords_setitem dr key val =
     (if list_all (\<lambda>(d, n). sizes (da_dims dr) (shape (da_values dr)) d = Some n)
           (zip (da_dims val) (shape (da_values val)))
         \<and> length (da_dims val) = length (shape (da_values val))
      then Inr (dr\<lparr>da_coords := (da_coords dr ++ (da_coords val)(key := None))(key \<mapsto> as_coord val)\<rparr>)
      else Inl (ValueError ''cannot add coordinates with new dimensions to a DataArray''))"

text \<open>
  The variable behind \<^verbatim>\<open>dr.coords[key]\<close>: the coordinate of that name; for a
  dimension without one, the positions along it.
\<close>

definition coord_var :: "('a::semiring_1) dataarray \<Rightarrow> pyval \<Rightarrow> py_error + 'a coord" where
  "coord_var dr key =
     (case da_coords dr key of
        Some c \<Rightarrow> Inr c
      | None \<Rightarrow>
          (case sizes (da_dims dr) (shape (da_values dr)) key of
             Some n \<Rightarrow> Inr \<lparr>c_dims = [key], c_values = positions n\<rparr>
           | None \<Rightarrow> Inl (KeyError key)))"

text \<open>The coordinates that lie along the given dimensions only.\<close>

definition along :: "pyval list \<Rightarrow> (pyval \<rightharpoonup> 'a coord) \<Rightarrow> (pyval \<rightharpoonup> 'a coord)" where
  "along dims cs =
     (\<lambda>k. case cs k of
             Some v \<Rightarrow> if set (c_dims v) \<subseteq> set dims then Some v else None
           | None \<Rightarrow> None)"

text \<open>
  \<^verbatim>\<open>dr.coords[key]\<close> is a labeled array: that variable, with the coordinates of
  \<open>dr\<close> that lie along its dimensions (the scalar ones among them). The coordinates of
  \<open>dr\<close> are taken to fit its sizes, as xarray keeps them.
\<close>

definition coords_getitem :: "('a::semiring_1) dataarray \<Rightarrow> pyval \<Rightarrow> py_error + 'a dataarray" where
  "coords_getitem dr key =
     (case coord_var dr key of
        Inl e \<Rightarrow> Inl e
      | Inr c \<Rightarrow>
          Inr \<lparr>da_values = c_values c, da_dims = c_dims c,
               da_name = (case key of PyStr s \<Rightarrow> Some s | _ \<Rightarrow> None),
               da_coords = along (c_dims c) (da_coords dr), da_attrs = Map.empty\<rparr>)"

text \<open>\<^verbatim>\<open>for dim in extra_dims: dr_out.coords[dim] = dr_in.coords[dim]\<close>\<close>

fun copy_extra_coords ::
  "('a::semiring_1) dataarray \<Rightarrow> pyval list \<Rightarrow> 'a dataarray \<Rightarrow> py_error + 'a dataarray" where
  "copy_extra_coords dr_in [] dr_out = Inr dr_out"
| "copy_extra_coords dr_in (dim # dims) dr_out =
     (case coords_getitem dr_in dim of
        Inl e \<Rightarrow> Inl e
      | Inr val \<Rightarrow>
          (case coords_setitem dr_out dim val of
             Inl e \<Rightarrow> Inl e
           | Inr dr_out' \<Rightarrow> copy_extra_coords dr_in dims dr_out'))"

text \<open>An attribute that \<^verbatim>\<open>__init__\<close> did not set, or the value it has.\<close>

definition attribute :: "string \<Rightarrow> 'v option \<Rightarrow> py_error + 'v" where
  "attribute name v = (case v of None \<Rightarrow> Inl (AttributeError name) | Some x \<Rightarrow> Inr x)"

text \<open>\<^verbatim>\<open>extra_dims + self.horiz_dims\<close>, a sum of tuples.\<close>

definition tuple_add :: "pyval list \<Rightarrow> pyval \<Rightarrow> py_error + pyval" where
  "tuple_add t v =
     (case v of
        PyTuple u \<Rightarrow> Inr (PyTuple (t @ u))
      | _ \<Rightarrow> Inl (TypeError ''can only concatenate tuple to tuple''))"

definition bind_sum :: "py_error + 'x \<Rightarrow> ('x \<Rightarrow> py_error + 'y) \<Rightarrow> py_error + 'y" where
  "bind_sum v f = (case v of Inl e \<Rightarrow> Inl e | Inr x \<Rightarrow> f x)"

definition regrid_dataarray ::
  "('a::semiring_1, 'g) Regridder \<Rightarrow> 'a dataarray \<Rightarrow> ('a, 'a dataarray) comp" where
  "regrid_dataarray self dr_in =
     andthen (regrid_numpy self (da_values dr_in)) (\<lambda>outdata.
     let varname = da_name dr_in;
         extra_dims = take (length (da_dims dr_in) - 2) (da_dims dr_in)
     in lift
       (bind_sum (attribute ''horiz_dims'' (self_horiz_dims self)) (\<lambda>horiz_dims.
        bind_sum (tuple_add extra_dims horiz_dims) (\<lambda>dims.
        bind_sum (xr_DataArray outdata dims varname) (\<lambda>dr_out.
        bind_sum (attribute ''lon_dim'' (self_lon_dim self)) (\<lambda>lon_dim.
        bind_sum (xr_DataArray (self_lon_out self) lon_dim None) (\<lambda>lon_c.
        bind_sum (coords_setitem dr_out (name_val (self_lon_name_out self)) lon_c) (\<lambda>dr_out.
        bind_sum (attribute ''lat_dim'' (self_lat_dim self)) (\<lambda>lat_dim.
        bind_sum (xr_DataArray (self_lat_out self) lat_dim None) (\<lambda>lat_c.
        bind_sum (coords_setitem dr_out (name_val (self_lat_name_out self)) lat_c) (\<lambda>dr_out.
        bind_sum (copy_extra_coords dr_in extra_dims dr_out) (\<lambda>dr_out.
        Inr (dr_out\<lparr>da_attrs := (da_attrs dr_out)(''regrid_method'' \<mapsto> self_method self)\<rparr>)))))))))))))"

definition regrid_dataset :: "('a, 'g) Regridder \<Rightarrow> 'd \<Rightarrow> ('a, 'r) comp" where
  "regrid_dataset self ds_in = raise (NotImplementedError ''Only support regrid_dataarray() for now.'')"

text \<open>\<^verbatim>\<open>__call__\<close> chooses by the type of its argument.\<close>

datatype 'a py_input = Numpy "'a ndarray" | Labeled "'a dataarray" | Other

definition Regridder_call ::
  "('a::semiring_1, 'g) Regridder \<Rightarrow> 'a py_input \<Rightarrow> ('a, 'a py_input) comp" where
  "Regridder_call self a =
     (case a of
        Numpy x \<Rightarrow> andthen (regrid_numpy self x) (\<lambda>y. ret (Numpy y))
      | Labeled x \<Rightarrow> andthen (regrid_dataarray self x) (\<lambda>y. ret (Labeled y))
      | Other \<Rightarrow> raise (TypeError ''input must be numpy array or xarray DataArray!''))"

section \<open>Example values\<close>

definition example_regridder :: "(int, unit) Regridder" where
  "example_regridder =
       \<lparr>self_need_bounds = False, self_method = ''bilinear'', self_periodic = False,
        self_reuse_weights = False,
        self_lat_name_in = Some ''lat'', self_lon_name_in = Some ''lon'',
        self_lat_b_name_in = None, self_lon_b_name_in = None,
        self_lat_name_out = Some ''lat'', self_lon_name_out = Some ''lon'',
        self_lat_b_name_out = None, self_lon_b_name_out = None,
        self_grid_in = (), self_grid_out = (),
        self_lon_out = \<lparr>shape = [2], data = [0, 1]\<rparr>, self_lat_out = \<lparr>shape = [2], data = [0, 1]\<rparr>,
        self_lon_dim = Some (PyStr ''lon''), self_lat_dim = Some (PyStr ''lat''),
        self_horiz_dims = Some (PyTuple [PyStr ''lat'', PyStr ''lon'']),
        self_Ny_in = 3, self_Nx_in = 4, self_Ny_out = 2, self_Nx_out = 2,
        self_N_in = 12, self_N_out = 4,
        self_filename = ''bilinear_3x4_2x2.nc'',
        self_A = \<lparr>n_out = 4, n_in = 12, entries = [(0, 0, 1), (3, 11, 1)]\<rparr>\<rparr>"

definition world0 :: "int world" where
  "world0 = \<lparr>files = Map.empty, trace = []\<rparr>"

section \<open>Predicates of the proofs and further example values\<close>

text \<open>
  How a name resolution can fail; a world that differs from another by printed lines
  only; events that neither remove a file nor generate weights (\<open>benign\<close>), a world
  reached through such events with the files untouched (\<open>calm\<close>), and a computation
  that only ever does that (\<open>quiet\<close>), or does so from the worlds of a given kind
  (\<open>calm_when\<close>). The example backend accepts every grid and
  generates two weights; the example grids are a 3 x 4 rectilinear source and 2 x 2
  destinations, curvilinear and rectilinear.
\<close>

definition names_failed :: "'b world \<Rightarrow> 'b world \<Rightarrow> py_error \<Rightarrow> bool" where
  "names_failed w w' e \<longleftrightarrow>
     (e = UnboundLocalError ''lat_name'' \<and> w' = w\<lparr>trace := trace w @ [Print convention_message]\<rparr>)
     \<or> (e = AttributeError ''variables'' \<and> w' = w)"

definition only_prints :: "'b world \<Rightarrow> 'b world \<Rightarrow> bool" where
  "only_prints w w' \<longleftrightarrow> files w' = files w \<and> (\<exists>msgs. trace w' = trace w @ map Print msgs)"

definition benign :: "event \<Rightarrow> bool" where
  "benign ev = (case ev of Call_esmf_regrid_build m f \<Rightarrow> False | Remove f \<Rightarrow> False | _ \<Rightarrow> True)"

definition calm :: "'a world \<Rightarrow> 'a world \<Rightarrow> bool" where
  "calm w w' \<longleftrightarrow> files w' = files w \<and> (\<exists>evs. trace w' = trace w @ evs \<and> list_all benign evs)"

definition quiet :: "('a, 'r) comp \<Rightarrow> bool" where
  "quiet m \<longleftrightarrow> (\<forall>w. calm w (fst (m w)))"

definition calm_when :: "('a world \<Rightarrow> bool) \<Rightarrow> ('a, 'r) comp \<Rightarrow> bool" where
  "calm_when P m \<longleftrightarrow> (\<forall>w. P w \<longrightarrow> calm w (fst (m w)))"

definition ex_backend :: "(int, unit) backend" where
  "ex_backend = \<lparr>esmf_grid = (\<lambda>lon lat periodic. Inr ()),
                 add_corner = (\<lambda>grid lon_b lat_b. Inr grid),
                 esmf_regrid_build = (\<lambda>grid_in grid_out method. Inr [(0, 0, 1), (3, 11, 1)])\<rparr>"

definition vector :: "string \<Rightarrow> int list \<Rightarrow> int variable" where
  "vector dim xs = \<lparr>var_dims = Some [dim], var_values = \<lparr>shape = [length xs], data = xs\<rparr>\<rparr>"

definition ex_ds_in :: "int grid_description" where
  "ex_ds_in = Dataset [''lat'' \<mapsto> vector ''lat'' [10, 20, 30], ''lon'' \<mapsto> vector ''lon'' [0, 1, 2, 3],
                       ''lat_b'' \<mapsto> vector ''lat_b'' [5, 15, 25, 35],
                       ''lon_b'' \<mapsto> vector ''lon_b'' [0, 1, 2, 3, 4]]
                      [''lat'' \<mapsto> 3, ''lon'' \<mapsto> 4, ''lat_b'' \<mapsto> 4, ''lon_b'' \<mapsto> 5]"

definition ex_ds_out :: "int grid_description" where
  "ex_ds_out = Dataset
     [''lat'' \<mapsto> \<lparr>var_dims = Some [''y'', ''x''], var_values = \<lparr>shape = [2, 2], data = [10, 10, 30, 30]\<rparr>\<rparr>,
      ''lon'' \<mapsto> \<lparr>var_dims = Some [''y'', ''x''], var_values = \<lparr>shape = [2, 2], data = [0, 2, 0, 2]\<rparr>\<rparr>,
      ''lat_b'' \<mapsto> \<lparr>var_dims = Some [''y_b'', ''x_b''],
                     var_values = \<lparr>shape = [3, 3], data = [0, 0, 0, 20, 20, 20, 40, 40, 40]\<rparr>\<rparr>,
      ''lon_b'' \<mapsto> \<lparr>var_dims = Some [''y_b'', ''x_b''],
                     var_values = \<lparr>shape = [3, 3], data = [0, 1, 3, 0, 1, 3, 0, 1, 3]\<rparr>\<rparr>]
     [''y'' \<mapsto> 2, ''x'' \<mapsto> 2, ''y_b'' \<mapsto> 3, ''x_b'' \<mapsto> 3]"

definition ex_self :: "string \<Rightarrow> bool \<Rightarrow> (int, unit) Regridder" where
  "ex_self method reuse =
     \<lparr>self_need_bounds = (method = ''conservative''), self_method = method, self_periodic = False,
      self_reuse_weights = reuse,
      self_lat_name_in = Some ''lat'', self_lon_name_in = Some ''lon'',
      self_lat_b_name_in = Some ''lat_b'', self_lon_b_name_in = Some ''lon_b'',
      self_lat_name_out = Some ''lat'', self_lon_name_out = Some ''lon'',
      self_lat_b_name_out = Some ''lat_b'', self_lon_b_name_out = Some ''lon_b'',
      self_grid_in = (), self_grid_out = (),
      self_lon_out = \<lparr>shape = [2, 2], data = [0, 2, 0, 2]\<rparr>,
      self_lat_out = \<lparr>shape = [2, 2], data = [10, 10, 30, 30]\<rparr>,
      self_lon_dim = Some (PyTuple [PyStr ''y'', PyStr ''x'']),
      self_lat_dim = Some (PyTuple [PyStr ''y'', PyStr ''x'']),
      self_horiz_dims = Some (PyTuple [PyStr ''y'', PyStr ''x'']),
      self_Ny_in = 3, self_Nx_in = 4, self_Ny_out = 2, self_Nx_out = 2,
      self_N_in = 12, self_N_out = 4,
      self_filename = method @ ''_3x4_2x2.nc'',
      self_A = \<lparr>n_out = 4, n_in = 12, entries = [(0, 0, 1), (3, 11, 1)]\<rparr>\<rparr>"

definition ex_world :: "int world" where
  "ex_world = \<lparr>files = [''bilinear_3x4_2x2.nc'' \<mapsto> [(1, 1, 1)]], trace = []\<rparr>"

definition ex_ds_out_1d :: "int grid_description" where
  "ex_ds_out_1d = Dataset [''lat'' \<mapsto> vector ''lat'' [10, 30], ''lon'' \<mapsto> vector ''lon'' [0, 2],
                           ''lat_b'' \<mapsto> vector ''lat_b'' [0, 20, 40],
                           ''lon_b'' \<mapsto> vector ''lon_b'' [0, 1, 3]]
                          [''lat'' \<mapsto> 2, ''lon'' \<mapsto> 2, ''lat_b'' \<mapsto> 3, ''lon_b'' \<mapsto> 3]"

definition ex_ds_plain :: "int grid_description" where
  "ex_ds_plain = Dataset [''lat'' \<mapsto> vector ''lat'' [10, 30], ''lon'' \<mapsto> vector ''lon'' [0, 2]]
                         [''lat'' \<mapsto> 2, ''lon'' \<mapsto> 2]"

definition ex_dr_in :: "int dataarray" where
  "ex_dr_in = \<lparr>da_values = \<lparr>shape = [5, 3, 4], data = map int [0..<60]\<rparr>,
               da_dims = [PyStr ''time'', PyStr ''lat'', PyStr ''lon''],
               da_name = Some ''T'',
               da_coords = [PyStr ''time'' \<mapsto> \<lparr>c_dims = [PyStr ''time''],
                                                 c_values = \<lparr>shape = [5], data = [100, 101, 102, 103, 104]\<rparr>\<rparr>,
                            PyStr ''lat'' \<mapsto> \<lparr>c_dims = [PyStr ''lat''],
                                                c_values = \<lparr>shape = [3], data = [10, 20, 30]\<rparr>\<rparr>,
                            PyStr ''lon'' \<mapsto> \<lparr>c_dims = [PyStr ''lon''],
                                                c_values = \<lparr>shape = [4], data = [0, 1, 2, 3]\<rparr>\<rparr>,
                            PyStr ''month'' \<mapsto> \<lparr>c_dims = [PyStr ''time''],
                                                  c_values = \<lparr>shape = [5], data = [1, 1, 1, 2, 2]\<rparr>\<rparr>,
                            PyStr ''height'' \<mapsto> \<lparr>c_dims = [], c_values = \<lparr>shape = [], data = [2]\<rparr>\<rparr>],
               da_attrs = Map.empty\<rparr>"

text \<open>
  The regridder that the constructor returns for the destination with 1-D coordinates.
\<close>

definition ex_self_1d :: "(int, unit) Regridder" where
  "ex_self_1d = (ex_self ''bilinear'' False)
              \<lparr>self_lon_out := \<lparr>shape = [2], data = [0, 2]\<rparr>,
               self_lat_out := \<lparr>shape = [2], data = [10, 30]\<rparr>,
               self_lon_dim := Some (PyTuple [PyStr ''lon'']),
               self_lat_dim := Some (PyTuple [PyStr ''lat'']),
               self_horiz_dims := Some (PyTuple [PyTuple [PyStr ''lat''], PyTuple [PyStr ''lon'']])\<rparr>"

text \<open>
  A rectilinear grid of \<open>ny\<close> latitudes and \<open>nx\<close> longitudes, with its cell boundaries,
  as a Dataset of four vectors.
\<close>

definition ramp :: "nat \<Rightarrow> int list" where
  "ramp n = map int [0..<n]"

definition rect_grid :: "nat \<Rightarrow> nat \<Rightarrow> int grid_description" where
  "rect_grid ny nx =
     Dataset [''lat'' \<mapsto> vector ''lat'' (ramp ny), ''lon'' \<mapsto> vector ''lon'' (ramp nx),
              ''lat_b'' \<mapsto> vector ''lat_b'' (ramp (ny + 1)), ''lon_b'' \<mapsto> vector ''lon_b'' (ramp (nx + 1))]
             [''lat'' \<mapsto> ny, ''lon'' \<mapsto> nx, ''lat_b'' \<mapsto> ny + 1, ''lon_b'' \<mapsto> nx + 1]"

section \<open>Sequencing computations\<close>

lemma ret_apply [simp]: "ret x w = (w, Inr x)"
  by (simp add: ret_def)

lemma raise_apply [simp]: "raise e w = (w, Inl e)"
  by (simp add: raise_def)

lemma lift_apply [simp]: "lift v w = (w, v)"
  by (simp add: lift_def)

lemma emit_apply [simp]: "emit ev w = (w\<lparr>trace := trace w @ [ev]\<rparr>, Inr ())"
  by (simp add: emit_def)

lemma print_apply [simp]: "print s w = (w\<lparr>trace := trace w @ [Print s]\<rparr>, Inr ())"
  by (simp add: print_def)

lemma andthen_ret [simp]: "andthen (ret x) f = f x"
  by (rule ext) (simp add: andthen_def)

lemma andthen_raise [simp]: "andthen (raise e) f = raise e"
  by (rule ext) (simp add: andthen_def)

lemma andthen_lift_Inr [simp]: "andthen (lift (Inr x)) f = f x"
  by (rule ext) (simp add: andthen_def)

lemma andthen_lift_Inl [simp]: "andthen (lift (Inl e)) f = raise e"
  by (rule ext) (simp add: andthen_def)

lemma andthen_emit [simp]: "andthen (emit ev) f w = f () (w\<lparr>trace := trace w @ [ev]\<rparr>)"
  by (simp add: andthen_def)

lemma andthen_print [simp]: "andthen (print s) f w = f () (w\<lparr>trace := trace w @ [Print s]\<rparr>)"
  by (simp add: andthen_def)

lemma andthen_Inr_iff:
  "andthen m f w = (w', Inr r) \<longleftrightarrow> (\<exists>x w1. m w = (w1, Inr x) \<and> f x w1 = (w', Inr r))"
  by (auto simp: andthen_def split: prod.splits sum.splits)

lemma row_concat_replicate:
  "i < m \<Longrightarrow> take (length xs) (drop (i * length xs) (concat (replicate m xs))) = xs"
proof (induction m arbitrary: i)
  case 0 then show ?case by simp
next
  case (Suc m)
  show ?case
  proof (cases i)
    case 0 then show ?thesis by simp
  next
    case (Suc k)
    with Suc.prems have "k < m" by simp
    from Suc.IH[OF this] show ?thesis using Suc by simp
  qed
qed

lemma length_concat_replicate: "length (concat (replicate m xs)) = m * length xs"
  by (induction m) auto

lemma length_concat_map_replicate: "length (concat (map (replicate n) ys)) = length ys * n"
  by (induction ys) auto

lemma nth_concat_map_replicate:
  "i < length ys \<Longrightarrow> j < n \<Longrightarrow> concat (map (replicate n) ys) ! (i * n + j) = ys ! i"
proof (induction ys arbitrary: i)
  case Nil then show ?case by simp
next
  case (Cons y ys)
  show ?case
  proof (cases i)
    case 0 with Cons.prems show ?thesis by (simp add: nth_append)
  next
    case (Suc k)
    with Cons.prems have "k < length ys" by simp
    from Cons.IH[OF this Cons.prems(2)] show ?thesis using Suc by (simp add: nth_append)
  qed
qed

text \<open>
  C6: for a longitude vector of length \<open>Nx\<close> and a latitude vector of length \<open>Ny\<close>
  the Mesh Normalizer returns two arrays of shape \<open>(Ny, Nx)\<close>; every row of the
  longitude mesh is the longitude vector and every column of the latitude mesh is the
  latitude vector.
\<close>

theorem as_2d_mesh_vectors:
  assumes "shape lon = [Nx]" "length (data lon) = Nx" "shape lat = [Ny]" "length (data lat) = Ny"
  shows "\<exists>X Y. as_2d_mesh lon lat = Inr (X, Y)
           \<and> shape X = [Ny, Nx] \<and> shape Y = [Ny, Nx] \<and> wf_array X \<and> wf_array Y
           \<and> (\<forall>i<Ny. row X i = data lon) \<and> (\<forall>j<Nx. col Y j = data lat)"
proof -
  have r: "\<forall>i<Ny. take Nx (drop (i * Nx) (concat (replicate Ny (data lon)))) = data lon"
    using row_concat_replicate[of _ Ny "data lon"] assms(2) by simp
  have c: "\<forall>j<Nx. map (\<lambda>i. concat (map (replicate Nx) (data lat)) ! (i * Nx + j)) [0..<Ny] = data lat"
  proof (intro allI impI)
    fix j assume j: "j < Nx"
    show "map (\<lambda>i. concat (map (replicate Nx) (data lat)) ! (i * Nx + j)) [0..<Ny] = data lat"
      by (rule nth_equalityI) (use assms(4) j in \<open>auto simp: nth_concat_map_replicate\<close>)
  qed
  show ?thesis
    using assms r c
    by (simp add: as_2d_mesh_def ndim_def meshgrid_def row_def col_def wf_array_def
        length_concat_replicate length_concat_map_replicate)
qed

theorem as_2d_mesh_vectors_witness:
  "as_2d_mesh \<lparr>shape = [3], data = [10, 20, 30 :: int]\<rparr> \<lparr>shape = [2], data = [1, 2]\<rparr>
     = Inr (\<lparr>shape = [2, 3], data = [10, 20, 30, 10, 20, 30]\<rparr>,
            \<lparr>shape = [2, 3], data = [1, 1, 1, 2, 2, 2]\<rparr>)
   \<and> row \<lparr>shape = [2, 3], data = [10, 20, 30, 10, 20, 30 :: int]\<rparr> 1 = [10, 20, 30]
   \<and> col \<lparr>shape = [2, 3], data = [1, 1, 1, 2, 2, 2 :: int]\<rparr> 2 = [1, 2]"
  using as_2d_mesh_vectors[of "\<lparr>shape = [3], data = [10, 20, 30 :: int]\<rparr>" 3 "\<lparr>shape = [2], data = [1, 2]\<rparr>" 2]
  by (simp add: as_2d_mesh_def ndim_def meshgrid_def row_def col_def numeral_2_eq_2 numeral_3_eq_3 upt_rec)

section \<open>Regrid Applicator on bare arrays\<close>

lemma length_spmv [simp]: "length (spmv es n x) = n"
  by (simp add: spmv_def)

lemma length_concat_map_const:
  "(\<And>x. x \<in> set xs \<Longrightarrow> length (f x) = m) \<Longrightarrow> length (concat (map f xs)) = length xs * m"
  by (induction xs) auto

lemma wf_apply_weights: "wf_array (apply_weights A indata ny nx)"
  by (simp add: wf_array_def apply_weights_def Let_def length_concat_map_const)

lemma shape_apply_weights:
  "shape (apply_weights A indata ny nx) = take (length (shape indata) - 2) (shape indata) @ [ny, nx]"
  by (simp add: apply_weights_def Let_def)

text \<open>
  C1: an input whose shape ends in \<open>(Ny_in, Nx_in)\<close> is regridded to an array whose
  shape has the same leading extents, in the same order, followed by
  \<open>(Ny_out, Nx_out)\<close>; the codec is called once. The instance below is the input of
  shape \<open>(5, 3, 4)\<close> on a 3 x 4 source and 2 x 2 destination grid.
\<close>

theorem regrid_numpy_shape:
  assumes "shape indata = extra @ [self_Ny_in self, self_Nx_in self]"
  shows "\<exists>outdata.
           regrid_numpy self indata w
             = (w\<lparr>trace := trace w @ [Call_apply_weights (self_Ny_out self) (self_Nx_out self)]\<rparr>, Inr outdata)
         \<and> Regridder_call self (Numpy indata) w
             = (w\<lparr>trace := trace w @ [Call_apply_weights (self_Ny_out self) (self_Nx_out self)]\<rparr>, Inr (Numpy outdata))
         \<and> shape outdata = extra @ [self_Ny_out self, self_Nx_out self]
         \<and> wf_array outdata"
  using assms
  by (simp add: regrid_numpy_def Regridder_call_def call_apply_weights_def shape_apply_weights
      wf_apply_weights ret_def andthen_def emit_def)

text \<open>
  C2: an input whose trailing two extents are not \<open>(Ny_in, Nx_in)\<close> fails with the
  assertion's message, which prints the offending and the expected shape; the world is
  returned as it was, so the codec was not called. The same holds through
  \<^verbatim>\<open>__call__\<close>, for a bare and for a labeled array.
\<close>

theorem regrid_numpy_mismatch:
  assumes "drop (length (shape indata) - 2) (shape indata) \<noteq> [self_Ny_in self, self_Nx_in self]"
      and "da_values dr_in = indata"
      and "err = AssertionError
                (''The horizontal shape of input data is ''
                 @ str_tuple (drop (length (shape indata) - 2) (shape indata))
                 @ '', different from that ofthe regridder ''
                 @ str_tuple [self_Ny_in self, self_Nx_in self] @ ''!'')"
  shows "regrid_numpy self indata w = (w, Inl err)
       \<and> Regridder_call self (Numpy indata) w = (w, Inl err)
       \<and> Regridder_call self (Labeled dr_in) w = (w, Inl err)"
  using assms
  by (simp add: regrid_numpy_def Regridder_call_def regrid_dataarray_def shape_mismatch_message_def)

theorem regrid_numpy_shape_witness:
  "\<exists>outdata.
     regrid_numpy example_regridder \<lparr>shape = [5, 3, 4], data = map int [0..<60]\<rparr> world0
       = (world0\<lparr>trace := [Call_apply_weights 2 2]\<rparr>, Inr outdata)
   \<and> shape outdata = [5, 2, 2]"
  using regrid_numpy_shape[where indata = "\<lparr>shape = [5, 3, 4], data = map int [0..<60]\<rparr>"
      and extra = "[5]" and self = example_regridder and w = world0]
  by (auto simp add: example_regridder_def world0_def)

theorem regrid_numpy_mismatch_witness:
  "regrid_numpy example_regridder \<lparr>shape = [4], data = [1, 2, 3, 4]\<rparr> world0
     = (world0,
        Inl (AssertionError ''The horizontal shape of input data is (4,), different from that ofthe regridder (3, 4)!''))"
  using regrid_numpy_mismatch[where indata = "\<lparr>shape = [4], data = [1, 2, 3, 4 :: int]\<rparr>"
      and self = example_regridder and w = world0
      and dr_in = "\<lparr>da_values = \<lparr>shape = [4], data = [1, 2, 3, 4 :: int]\<rparr>, da_dims = [PyStr ''x''],
                     da_name = None, da_coords = Map.empty, da_attrs = Map.empty\<rparr>", OF _ _ refl]
  by (simp add: example_regridder_def str_tuple_def str_nat.simps digit_char_def)

section \<open>Coordinate Locator\<close>

lemma get_latlon_name_Dataset:
  "get_latlon_name (Dataset vs sz) False w =
     (if vs ''lat'' \<noteq> None then (w, Inr (''lat'', ''lon''))
      else if vs ''latitude'' \<noteq> None then (w, Inr (''latitude'', ''longitude''))
      else (w\<lparr>trace := trace w @ [Print convention_message]\<rparr>, Inl (UnboundLocalError ''lat_name'')))"
  by (simp add: get_latlon_name_def latlon_try_def variables_def)

lemma get_latlon_name_Dataset_boundary:
  "get_latlon_name (Dataset vs sz) True w =
     (if vs ''lat_b'' \<noteq> None then (w, Inr (''lat_b'', ''lon_b''))
      else if vs ''latitude_b'' \<noteq> None then (w, Inr (''latitude_b'', ''longitude_b''))
      else (w\<lparr>trace := trace w @ [Print convention_message]\<rparr>, Inl (UnboundLocalError ''lat_name'')))"
  by (simp add: get_latlon_name_def latlon_try_def variables_def)

lemma get_latlon_name_Dictionary:
  "get_latlon_name (Dictionary vs) boundary w = (w, Inl (AttributeError ''variables''))"
  by (simp add: get_latlon_name_def latlon_try_def variables_def)

text \<open>
  C5: on a Dataset that has neither \<^verbatim>\<open>lat\<close> nor \<^verbatim>\<open>latitude\<close> the locator raises
  \<^verbatim>\<open>ValueError\<close>, catches it itself, prints the message and then fails at
  \<^verbatim>\<open>return lat_name, lon_name\<close> with \<^verbatim>\<open>UnboundLocalError\<close>: the failure that reaches
  the caller is not the one raised for the unrecognised convention. The resolution of
  the two conventions on a Dataset, \<^verbatim>\<open>lat\<close> first, is \<open>get_latlon_name_Dataset\<close>; a
  plain dictionary has no \<^verbatim>\<open>variables\<close> (\<open>get_latlon_name_Dictionary\<close>).
\<close>

theorem get_latlon_name_neither:
  "get_latlon_name (Dataset Map.empty Map.empty) False world0
     = (world0\<lparr>trace := [Print ''Must have coordinates compliant with NETCDF COARDS or CF conventions'']\<rparr>,
        Inl (UnboundLocalError ''lat_name''))"
  by (simp add: get_latlon_name_Dataset world0_def convention_message_def)

lemma get_latlon_name_cases:
  "(\<exists>names. get_latlon_name ds boundary w = (w, Inr names))
   \<or> (\<exists>w' e. get_latlon_name ds boundary w = (w', Inl e) \<and> names_failed w w' e)"
  by (cases ds; cases boundary)
     (simp_all add: get_latlon_name_Dataset get_latlon_name_Dataset_boundary
        get_latlon_name_Dictionary names_failed_def)

lemma resolve_names_cases:
  "(\<exists>names. resolve_names ds boundary lat lon w = (w, Inr names))
   \<or> (\<exists>w' e. resolve_names ds boundary lat lon w = (w', Inl e) \<and> names_failed w w' e)"
  using get_latlon_name_cases[of ds boundary w]
  by (auto simp: resolve_names_def andthen_def)

lemma resolve_names_lacking:
  assumes "items ds ''lat_b'' = None" "items ds ''latitude_b'' = None"
  shows "\<exists>w' e. resolve_names ds True None None w = (w', Inl e) \<and> names_failed w w' e"
  using assms
  by (cases ds)
     (simp_all add: resolve_names_def andthen_def items_def get_latlon_name_Dataset_boundary
        get_latlon_name_Dictionary names_failed_def)

lemma andthen_Inl: "m w = (w', Inl e) \<Longrightarrow> andthen m f w = (w', Inl e)"
  by (simp add: andthen_def)

lemma andthen_Inr: "m w = (w', Inr x) \<Longrightarrow> andthen m f w = f x w'"
  by (simp add: andthen_def)

lemma only_prints_failed: "names_failed w w' e \<Longrightarrow> only_prints w w'"
  by (auto simp: names_failed_def only_prints_def intro: exI[of _ "[convention_message]"] exI[of _ "[]"])

lemma names_failed_error:
  "names_failed w w' e \<Longrightarrow> e = UnboundLocalError ''lat_name'' \<or> e = AttributeError ''variables''"
  by (auto simp: names_failed_def)

text \<open>
  C10: when no boundary names are given and one of the two grid descriptions has
  neither \<^verbatim>\<open>lat_b\<close> nor \<^verbatim>\<open>latitude_b\<close>, construction fails for every method, with
  the unbound \<^verbatim>\<open>lat_name\<close> of the locator (or, for a dictionary, its missing
  \<^verbatim>\<open>variables\<close>); nothing but printing has happened by then.
\<close>

theorem init_without_bounds_fails:
  assumes "(items ds_in ''lat_b'' = None \<and> items ds_in ''latitude_b'' = None)
           \<or> (items ds_out ''lat_b'' = None \<and> items ds_out ''latitude_b'' = None)"
  shows "\<exists>w' e. Regridder_init B ds_in ds_out method periodic filename reuse_weights
                   lat_in lon_in None None lat_out lon_out None None w = (w', Inl e)
               \<and> (e = UnboundLocalError ''lat_name'' \<or> e = AttributeError ''variables'')
               \<and> files w' = files w
               \<and> (\<exists>msgs. trace w' = trace w @ map Print msgs)"
proof -
  let ?init = "Regridder_init B ds_in ds_out method periodic filename reuse_weights
                   lat_in lon_in None None lat_out lon_out None None w"
  have goal: "\<exists>w' e. ?init = (w', Inl e) \<and> names_failed w w' e"
  proof -
    consider (f1) w' e where "resolve_names ds_in False lat_in lon_in w = (w', Inl e)" "names_failed w w' e"
      | (s1) n1 where "resolve_names ds_in False lat_in lon_in w = (w, Inr n1)"
      using resolve_names_cases[of ds_in False lat_in lon_in w] by blast
    then show ?thesis
    proof cases
      case f1
      then show ?thesis by (auto simp: Regridder_init_def Let_def andthen_Inl)
    next
      case s1
      consider (f2) w' e where "resolve_names ds_in True None None w = (w', Inl e)" "names_failed w w' e"
        | (s2) n2 where "resolve_names ds_in True None None w = (w, Inr n2)"
        using resolve_names_cases[of ds_in True None None w] by blast
      then show ?thesis
      proof cases
        case f2
        with s1 show ?thesis
          by (cases n1) (auto simp: Regridder_init_def Let_def andthen_Inl andthen_Inr)
      next
        case s2
        consider (f3) w' e where "resolve_names ds_out False lat_out lon_out w = (w', Inl e)" "names_failed w w' e"
          | (s3) n3 where "resolve_names ds_out False lat_out lon_out w = (w, Inr n3)"
          using resolve_names_cases[of ds_out False lat_out lon_out w] by blast
        then show ?thesis
        proof cases
          case f3
          with s1 s2 show ?thesis
            by (cases n1; cases n2) (auto simp: Regridder_init_def Let_def andthen_Inl andthen_Inr)
        next
          case s3
          from s2 resolve_names_lacking[of ds_in w] assms
          have out: "items ds_out ''lat_b'' = None" "items ds_out ''latitude_b'' = None" by fastforce+
          from resolve_names_lacking[OF out, of w]
          obtain w' e where "resolve_names ds_out True None None w = (w', Inl e)" "names_failed w w' e"
            by auto
          with s1 s2 s3 show ?thesis
            by (cases n1; cases n2; cases n3) (auto simp: Regridder_init_def Let_def andthen_Inl andthen_Inr)
        qed
      qed
    qed
  qed
  then obtain w' e where "?init = (w', Inl e)" "names_failed w w' e" by blast
  with only_prints_failed[of w w' e] names_failed_error[of w w' e] show ?thesis
    by (auto simp: only_prints_def)
qed

section \<open>What construction does before the weight file\<close>

lemma calm_refl [simp]: "calm w w"
  by (simp add: calm_def)

lemma calm_trans: "calm w w1 \<Longrightarrow> calm w1 w2 \<Longrightarrow> calm w w2"
  by (auto simp: calm_def)

lemma calm_emit: "benign ev \<Longrightarrow> calm w (w\<lparr>trace := trace w @ [ev]\<rparr>)"
  by (simp add: calm_def)

lemma quietD: "quiet m \<Longrightarrow> m w = (w', r) \<Longrightarrow> calm w w'"
  by (auto simp: quiet_def dest: spec[of _ w])

lemma quiet_ret [simp]: "quiet (ret x)"
  by (simp add: quiet_def)

lemma quiet_raise [simp]: "quiet (raise e)"
  by (simp add: quiet_def)

lemma quiet_lift [simp]: "quiet (lift v)"
  by (simp add: quiet_def)

lemma quiet_emit: "benign ev \<Longrightarrow> quiet (emit ev)"
  by (simp add: quiet_def calm_emit)

lemma quiet_print [simp]: "quiet (print s)"
  by (simp add: quiet_def calm_emit benign_def)

lemma quiet_andthen:
  assumes m: "quiet m" and f: "\<And>x. quiet (f x)"
  shows "quiet (andthen m f)"
  unfolding quiet_def
proof
  fix w
  obtain w1 r where mw: "m w = (w1, r)" by (cases "m w")
  from m mw have 1: "calm w w1" by (rule quietD)
  show "calm w (fst (andthen m f w))"
  proof (cases r)
    case (Inl e)
    with mw 1 show ?thesis by (simp add: andthen_def)
  next
    case (Inr x)
    obtain w2 r2 where fw: "f x w1 = (w2, r2)" by (cases "f x w1")
    from f[of x] fw have "calm w1 w2" by (rule quietD)
    with 1 mw Inr fw show ?thesis by (auto simp: andthen_def intro: calm_trans)
  qed
qed

lemma quiet_if: "quiet a \<Longrightarrow> quiet b \<Longrightarrow> quiet (if c then a else b)"
  by simp

lemma quiet_case_prod: "(\<And>a b. quiet (f a b)) \<Longrightarrow> quiet (case p of (a, b) \<Rightarrow> f a b)"
  by (cases p) simp

lemma quiet_get_latlon_name: "quiet (get_latlon_name ds boundary)"
  unfolding get_latlon_name_def
  by (auto split: sum.split py_error.split intro!: quiet_andthen)

lemma quiet_resolve_names: "quiet (resolve_names ds boundary lat lon)"
  unfolding resolve_names_def
  by (intro quiet_if quiet_andthen quiet_case_prod quiet_get_latlon_name quiet_ret)

lemma quiet_call_esmf_grid: "quiet (call_esmf_grid B lon lat p)"
  unfolding call_esmf_grid_def by (intro quiet_andthen quiet_emit quiet_lift) (simp add: benign_def)

lemma quiet_call_add_corner: "quiet (call_add_corner B g lon lat)"
  unfolding call_add_corner_def by (intro quiet_andthen quiet_emit quiet_lift) (simp add: benign_def)

lemma quiet_ds_to_ESMFgrid: "quiet (ds_to_ESMFgrid B ds need_bounds lat lon lat_b lon_b periodic)"
  unfolding ds_to_ESMFgrid_def
  by (intro quiet_if quiet_andthen quiet_case_prod quiet_get_latlon_name quiet_ret quiet_lift
      quiet_call_esmf_grid quiet_call_add_corner)

lemma andthen_InrE:
  assumes "andthen m f w = (w', Inr r)"
  obtains x w1 where "m w = (w1, Inr x)" "f x w1 = (w', Inr r)"
  using assms by (auto simp: andthen_Inr_iff)

lemma lift_InrD: "lift v w = (w', Inr x) \<Longrightarrow> w' = w \<and> v = Inr x"
  by simp

lemma get_default_filename_cong:
  "get_default_filename (self\<lparr>self_filename := f, self_A := a\<rparr>) = get_default_filename self"
  "get_default_filename (self\<lparr>self_filename := f\<rparr>) = get_default_filename self"
  "get_default_filename (self\<lparr>self_A := a\<rparr>) = get_default_filename self"
  by (simp_all add: get_default_filename_def)

lemma Regridder_init_Inr:
  assumes "Regridder_init B ds_in ds_out method periodic filename reuse_weights
             lat_in lon_in lat_b_in lon_b_in lat_out lon_out lat_b_out lon_b_out w = (w', Inr self)"
  shows "\<exists>w1 w2.
    write_weight_file B (self\<lparr>self_A := empty_op\<rparr>) w1 = (w2, Inr ())
    \<and> read_weights (self_filename self) (self_N_in self) (self_N_out self) w2 = (w', Inr (self_A self))
    \<and> calm w w1
    \<and> self_method self = method
    \<and> self_periodic self = (method \<noteq> ''conservative'' \<and> periodic)
    \<and> self_need_bounds self = (method = ''conservative'')
    \<and> self_reuse_weights self = reuse_weights
    \<and> self_filename self = (case filename of None \<Rightarrow> get_default_filename self | Some f \<Rightarrow> f)
    \<and> (self_lon_dim self, self_lat_dim self, self_horiz_dims self)
       = init_horiz_dims ds_out (self_lat_name_out self) (self_lon_name_out self) (self_lon_out self)"
  using assms unfolding Regridder_init_def Let_def
  apply (cases filename; cases "method = ''conservative''";
      elim andthen_InrE; clarsimp simp: split_def; elim andthen_InrE;
      clarsimp simp: split_def get_default_filename_def)
     apply (fastforce dest!: quietD[OF quiet_resolve_names] quietD[OF quiet_ds_to_ESMFgrid]
        intro: calm_trans)+
  done

section \<open>The example construction\<close>

lemma ex_names_in [simp]:
  "resolve_names ex_ds_in False None None w = (w, Inr (Some ''lat'', Some ''lon''))"
  "resolve_names ex_ds_in True None None w = (w, Inr (Some ''lat_b'', Some ''lon_b''))"
  by (simp_all add: resolve_names_def ex_ds_in_def get_latlon_name_Dataset
      get_latlon_name_Dataset_boundary andthen_def)

lemma ex_names_out [simp]:
  "resolve_names ex_ds_out False None None w = (w, Inr (Some ''lat'', Some ''lon''))"
  "resolve_names ex_ds_out True None None w = (w, Inr (Some ''lat_b'', Some ''lon_b''))"
  by (simp_all add: resolve_names_def ex_ds_out_def get_latlon_name_Dataset
      get_latlon_name_Dataset_boundary andthen_def)

lemma ex_grid_in:
  "ds_to_ESMFgrid ex_backend ex_ds_in nb (Some ''lat'') (Some ''lon'') (Some ''lat_b'') (Some ''lon_b'') p w
     = (w\<lparr>trace := trace w @ (if nb then [Call_esmf_grid, Call_add_corner] else [Call_esmf_grid])\<rparr>,
        Inr ((), [3, 4]))"
  by (simp add: ds_to_ESMFgrid_def ex_ds_in_def ex_backend_def getitem_def items_def vector_def
      as_2d_mesh_def ndim_def meshgrid_def call_esmf_grid_def call_add_corner_def andthen_def)

lemma ex_grid_out:
  "ds_to_ESMFgrid ex_backend ex_ds_out nb (Some ''lat'') (Some ''lon'') (Some ''lat_b'') (Some ''lon_b'') p w
     = (w\<lparr>trace := trace w @ (if nb then [Call_esmf_grid, Call_add_corner] else [Call_esmf_grid])\<rparr>,
        Inr ((), [2, 2]))"
  by (simp add: ds_to_ESMFgrid_def ex_ds_out_def ex_backend_def getitem_def items_def
      as_2d_mesh_def ndim_def meshgrid_def call_esmf_grid_def call_add_corner_def andthen_def)

lemma ex_getitem_out:
  "getitem ex_ds_out (Some ''lon'')
     = Inr \<lparr>var_dims = Some [''y'', ''x''], var_values = \<lparr>shape = [2, 2], data = [0, 2, 0, 2]\<rparr>\<rparr>"
  "getitem ex_ds_out (Some ''lat'')
     = Inr \<lparr>var_dims = Some [''y'', ''x''], var_values = \<lparr>shape = [2, 2], data = [10, 10, 30, 30]\<rparr>\<rparr>"
  by (simp_all add: getitem_def items_def ex_ds_out_def)

lemma ex_build: "esmf_regrid_build ex_backend grid_in grid_out method = Inr [(0, 0, 1), (3, 11, 1)]"
  by (simp add: ex_backend_def)

lemmas ex_eval = Regridder_init_def Let_def ex_grid_in ex_grid_out ex_getitem_out ex_build
  init_horiz_dims_def try_dims_def unpack2_def get_default_filename_def str_nat.simps digit_char_def
  write_weight_file_def read_weights_def call_esmf_regrid_build_def call_esmf_regrid_finalize_def
  andthen_def ndim_def ex_self_def overwrite_message_def

lemma ex_init_reuse:
  "Regridder_init ex_backend ex_ds_in ex_ds_out ''bilinear'' False None True
       None None None None None None None None ex_world
     = (ex_world\<lparr>trace := [Call_esmf_grid, Call_esmf_grid,
                             Print ''Reuse existing file: bilinear_3x4_2x2.nc'',
                             Call_read_weights ''bilinear_3x4_2x2.nc'' 12 4]\<rparr>,
        Inr ((ex_self ''bilinear'' True)\<lparr>self_A := \<lparr>n_out = 4, n_in = 12, entries = [(1, 1, 1)]\<rparr>\<rparr>))"
  by (simp add: ex_eval ex_world_def)

lemma ex_init_overwrite:
  "Regridder_init ex_backend ex_ds_in ex_ds_out ''bilinear'' False None False
       None None None None None None None None ex_world
     = (\<lparr>files = [''bilinear_3x4_2x2.nc'' \<mapsto> [(0, 0, 1), (3, 11, 1)]],
         trace = [Call_esmf_grid, Call_esmf_grid,
                  Print (''Overwrite existing file: bilinear_3x4_2x2.nc'' @ [CHR '' '', CHR 0x0A, CHR '' '']
                         @ ''You can set reuse_weights=True to save computing time.''),
                  Remove ''bilinear_3x4_2x2.nc'',
                  Call_esmf_regrid_build ''bilinear'' ''bilinear_3x4_2x2.nc'',
                  Call_esmf_regrid_finalize,
                  Call_read_weights ''bilinear_3x4_2x2.nc'' 12 4]\<rparr>,
        Inr (ex_self ''bilinear'' False))"
  by (simp add: ex_eval ex_world_def)

lemma ex_init_conservative:
  "Regridder_init ex_backend ex_ds_in ex_ds_out ''conservative'' True None False
       None None None None None None None None world0
     = (\<lparr>files = [''conservative_3x4_2x2.nc'' \<mapsto> [(0, 0, 1), (3, 11, 1)]],
         trace = [Call_esmf_grid, Call_add_corner, Call_esmf_grid, Call_add_corner,
                  Print ''Create weight file: conservative_3x4_2x2.nc'',
                  Call_esmf_regrid_build ''conservative'' ''conservative_3x4_2x2.nc'',
                  Call_esmf_regrid_finalize,
                  Call_read_weights ''conservative_3x4_2x2.nc'' 12 4]\<rparr>,
        Inr (ex_self ''conservative'' False))"
  by (simp add: ex_eval world0_def)

lemma ex_init_periodic:
  "Regridder_init ex_backend ex_ds_in ex_ds_out ''bilinear'' True None False
       None None None None None None None None world0
     = (\<lparr>files = [''bilinear_3x4_2x2_peri.nc'' \<mapsto> [(0, 0, 1), (3, 11, 1)]],
         trace = [Call_esmf_grid, Call_esmf_grid,
                  Print ''Create weight file: bilinear_3x4_2x2_peri.nc'',
                  Call_esmf_regrid_build ''bilinear'' ''bilinear_3x4_2x2_peri.nc'',
                  Call_esmf_regrid_finalize,
                  Call_read_weights ''bilinear_3x4_2x2_peri.nc'' 12 4]\<rparr>,
        Inr ((ex_self ''bilinear'' False)\<lparr>self_periodic := True, self_filename := ''bilinear_3x4_2x2_peri.nc''\<rparr>))"
  by (simp add: ex_eval world0_def)

section \<open>Weight Lifecycle Manager\<close>

lemma write_weight_file_reuse:
  assumes "files w (self_filename self) \<noteq> None" "self_reuse_weights self"
  shows "write_weight_file B self w
           = (w\<lparr>trace := trace w @ [Print (''Reuse existing file: '' @ self_filename self)]\<rparr>, Inr ())"
  using assms by (simp add: write_weight_file_def)

lemma write_weight_file_overwrite:
  assumes "files w (self_filename self) \<noteq> None" "\<not> self_reuse_weights self"
  shows "write_weight_file B self w =
     (case esmf_regrid_build B (self_grid_in self) (self_grid_out self) (self_method self) of
        Inl e \<Rightarrow>
          (w\<lparr>files := (files w)(self_filename self := None),
             trace := trace w @ [Print (overwrite_message (self_filename self)), Remove (self_filename self),
                                 Call_esmf_regrid_build (self_method self) (self_filename self)]\<rparr>, Inl e)
      | Inr ws \<Rightarrow>
          (w\<lparr>files := (files w)(self_filename self \<mapsto> ws),
             trace := trace w @ [Print (overwrite_message (self_filename self)), Remove (self_filename self),
                                 Call_esmf_regrid_build (self_method self) (self_filename self),
                                 Call_esmf_regrid_finalize]\<rparr>, Inr ()))"
  using assms
  by (simp add: write_weight_file_def call_esmf_regrid_build_def call_esmf_regrid_finalize_def
      overwrite_message_def andthen_def split: sum.splits)

lemma write_weight_file_create:
  assumes "files w (self_filename self) = None"
  shows "write_weight_file B self w =
     (case esmf_regrid_build B (self_grid_in self) (self_grid_out self) (self_method self) of
        Inl e \<Rightarrow>
          (w\<lparr>trace := trace w @ [Print (''Create weight file: '' @ self_filename self),
                                 Call_esmf_regrid_build (self_method self) (self_filename self)]\<rparr>, Inl e)
      | Inr ws \<Rightarrow>
          (w\<lparr>files := (files w)(self_filename self \<mapsto> ws),
             trace := trace w @ [Print (''Create weight file: '' @ self_filename self),
                                 Call_esmf_regrid_build (self_method self) (self_filename self),
                                 Call_esmf_regrid_finalize]\<rparr>, Inr ()))"
  using assms
  by (simp add: write_weight_file_def call_esmf_regrid_build_def call_esmf_regrid_finalize_def
      andthen_def split: sum.splits)

lemma read_weights_Inr:
  assumes "read_weights f n m w = (w', Inr A)"
  shows "w' = w\<lparr>trace := trace w @ [Call_read_weights f n m]\<rparr> \<and> files w f = Some (entries A)
         \<and> n_in A = n \<and> n_out A = m"
  using assms by (auto simp: read_weights_def split: option.splits if_splits)

lemma calm_when_quiet: "quiet m \<Longrightarrow> calm_when P m"
  by (simp add: calm_when_def quiet_def)

lemma calm_when_andthen:
  assumes m: "calm_when P m" and f: "\<And>x. calm_when P (f x)"
      and stable: "\<And>w w'. P w \<Longrightarrow> calm w w' \<Longrightarrow> P w'"
  shows "calm_when P (andthen m f)"
  unfolding calm_when_def
proof (intro allI impI)
  fix w assume P: "P w"
  obtain w1 r where mw: "m w = (w1, r)" by (cases "m w")
  from m P mw have 1: "calm w w1" by (auto simp: calm_when_def dest: spec[of _ w])
  show "calm w (fst (andthen m f w))"
  proof (cases r)
    case (Inl e)
    with mw 1 show ?thesis by (simp add: andthen_def)
  next
    case (Inr x)
    from stable[OF P 1] f[of x] have "calm w1 (fst (f x w1))" by (simp add: calm_when_def)
    with 1 mw Inr show ?thesis by (auto simp: andthen_def intro: calm_trans)
  qed
qed

lemma calm_when_case_prod: "(\<And>a b. calm_when P (f a b)) \<Longrightarrow> calm_when P (case p of (a, b) \<Rightarrow> f a b)"
  by (cases p) simp

lemma quiet_read_weights: "quiet (read_weights f n m)"
  by (auto simp: quiet_def read_weights_def andthen_def calm_def benign_def split: option.splits)

lemma calm_when_write_weight_file_reuse:
  assumes "self_filename self = f" "self_reuse_weights self"
  shows "calm_when (\<lambda>w. files w f \<noteq> None) (write_weight_file B self)"
  using assms by (auto simp: calm_when_def write_weight_file_reuse calm_def benign_def)

lemma init_reuse_explicit_filename:
  assumes "files w f \<noteq> None"
      and "Regridder_init B ds_in ds_out method periodic (Some f) True
             lat_in lon_in lat_b_in lon_b_in lat_out lon_out lat_b_out lon_b_out w = (w', res)"
  shows "files w' = files w \<and> (\<exists>evs. trace w' = trace w @ evs \<and> list_all benign evs)"
proof -
  have stable: "\<And>w w'. files w f \<noteq> None \<Longrightarrow> calm w w' \<Longrightarrow> files w' f \<noteq> None"
    by (simp add: calm_def)
  have "calm_when (\<lambda>w. files w f \<noteq> None)
          (Regridder_init B ds_in ds_out method periodic (Some f) True
             lat_in lon_in lat_b_in lon_b_in lat_out lon_out lat_b_out lon_b_out)"
    unfolding Regridder_init_def Let_def split_def
    by (intro calm_when_andthen[where P = "\<lambda>w. files w f \<noteq> None", OF _ _ stable])
       (simp_all add: calm_when_quiet quiet_resolve_names quiet_ds_to_ESMFgrid quiet_read_weights
          calm_when_write_weight_file_reuse del: not_None_eq)
  with assms show ?thesis
    by (auto simp: calm_when_def calm_def dest: spec[of _ w])
qed

text \<open>
  C3: a construction that returns, with a weight file already at the target path.
  With \<^verbatim>\<open>reuse_weights\<close> the files are what they were, the operator holds the
  contents of the existing file, and no event of the construction is a removal or a call
  of the weight generation. Without it the events contain the removal of the file
  followed at once by the one call of the weight generation, the file holds the weights
  the collaborator produced, and these are the weights loaded. With an explicit file
  name and \<^verbatim>\<open>reuse_weights\<close>, a construction that fails has not removed a file or
  generated weights either (\<open>init_reuse_explicit_filename\<close>).
\<close>

theorem init_weight_lifecycle:
  assumes init: "Regridder_init B ds_in ds_out method periodic filename reuse_weights
                   lat_in lon_in lat_b_in lon_b_in lat_out lon_out lat_b_out lon_b_out w = (w', Inr self)"
      and present: "files w (self_filename self) \<noteq> None"
  shows "if reuse_weights then
           files w' = files w
           \<and> files w (self_filename self) = Some (entries (self_A self))
           \<and> (\<exists>evs. trace w' = trace w @ evs \<and> list_all benign evs)
         else
           (\<exists>ws pre post.
              esmf_regrid_build B (self_grid_in self) (self_grid_out self) method = Inr ws
              \<and> files w' = (files w)(self_filename self \<mapsto> ws)
              \<and> entries (self_A self) = ws
              \<and> trace w' = trace w @ pre @ [Remove (self_filename self),
                                             Call_esmf_regrid_build method (self_filename self),
                                             Call_esmf_regrid_finalize] @ post
              \<and> list_all benign pre \<and> list_all benign post)"
proof -
  let ?self = "self\<lparr>self_A := empty_op\<rparr>"
  let ?f = "self_filename self"
  from Regridder_init_Inr[OF init] obtain w1 w2 where
    wwf: "write_weight_file B ?self w1 = (w2, Inr ())"
    and rw: "read_weights ?f (self_N_in self) (self_N_out self) w2 = (w', Inr (self_A self))"
    and calm: "calm w w1"
    and meth: "self_method self = method"
    and reuse: "self_reuse_weights self = reuse_weights"
    by blast
  from calm obtain evs where w1: "files w1 = files w" "trace w1 = trace w @ evs" "list_all benign evs"
    by (auto simp: calm_def)
  from present w1 have present1: "files w1 (self_filename ?self) \<noteq> None" by simp
  note rd = read_weights_Inr[OF rw]
  show ?thesis
  proof (cases reuse_weights)
    case True
    with reuse have "self_reuse_weights ?self" by simp
    from write_weight_file_reuse[OF present1 this, of B] wwf
    have w2: "w2 = w1\<lparr>trace := trace w1 @ [Print (''Reuse existing file: '' @ ?f)]\<rparr>" by simp
    have "list_all benign (evs @ [Print (''Reuse existing file: '' @ ?f), Call_read_weights ?f (self_N_in self) (self_N_out self)])"
      using w1 by (simp add: benign_def)
    moreover have "trace w' = trace w @ (evs @ [Print (''Reuse existing file: '' @ ?f), Call_read_weights ?f (self_N_in self) (self_N_out self)])"
      using rd w2 w1 by simp
    moreover have "files w' = files w" "files w ?f = Some (entries (self_A self))"
      using rd w2 w1 by simp_all
    ultimately show ?thesis using True by auto
  next
    case False
    with reuse have nr: "\<not> self_reuse_weights ?self" by simp
    note ow = write_weight_file_overwrite[OF present1 nr, of B]
    from ow wwf meth obtain ws where
      ws: "esmf_regrid_build B (self_grid_in self) (self_grid_out self) method = Inr ws"
      and w2: "w2 = w1\<lparr>files := (files w1)(?f \<mapsto> ws),
                     trace := trace w1 @ [Print (overwrite_message ?f), Remove ?f,
                                          Call_esmf_regrid_build method ?f, Call_esmf_regrid_finalize]\<rparr>"
      by (auto split: sum.splits)
    let ?pre = "evs @ [Print (overwrite_message ?f)]"
    let ?post = "[Call_read_weights ?f (self_N_in self) (self_N_out self)]"
    have "trace w' = trace w @ ?pre @ [Remove ?f, Call_esmf_regrid_build method ?f, Call_esmf_regrid_finalize] @ ?post"
      using rd w2 w1 by simp
    moreover have "list_all benign ?pre" "list_all benign ?post"
      using w1 by (simp_all add: benign_def)
    moreover have "files w' = (files w)(?f \<mapsto> ws)" "entries (self_A self) = ws"
      using rd w2 w1 by auto
    ultimately have "\<exists>ws pre post.
              esmf_regrid_build B (self_grid_in self) (self_grid_out self) method = Inr ws
              \<and> files w' = (files w)(self_filename self \<mapsto> ws)
              \<and> entries (self_A self) = ws
              \<and> trace w' = trace w @ pre @ [Remove (self_filename self),
                                             Call_esmf_regrid_build method (self_filename self),
                                             Call_esmf_regrid_finalize] @ post
              \<and> list_all benign pre \<and> list_all benign post"
      using ws by blast
    with False show ?thesis by simp
  qed
qed

lemma str_nat_last: "\<exists>ds d. str_nat n = ds @ [digit_char d] \<and> d < 10"
proof (cases "n < 10")
  case True
  then have "str_nat n = [] @ [digit_char n]" by (simp add: str_nat.simps)
  with True show ?thesis by blast
next
  case False
  then have "str_nat n = str_nat (n div 10) @ [digit_char (n mod 10)]" by (subst str_nat.simps) simp
  moreover have "n mod 10 < 10" by simp
  ultimately show ?thesis by blast
qed

lemma digit_char_not_i: "d < 10 \<Longrightarrow> digit_char d \<noteq> CHR ''i''"
proof -
  assume "d < 10"
  then have "digit_char d \<in> set ''0123456789''"
    unfolding digit_char_def by (intro nth_mem) simp
  then show ?thesis by auto
qed

lemma no_peri_suffix: "\<not> suffix ''_peri.nc'' (xs @ str_nat n @ ''.nc'')"
proof -
  from str_nat_last[of n] obtain ds d where d: "str_nat n = ds @ [digit_char d]" "d < 10" by blast
  from digit_char_not_i[OF d(2)] show ?thesis
    by (simp add: d(1) suffix_to_prefix)
qed

text \<open>
  C4: with the conservative method the constructor behaves for every \<^verbatim>\<open>periodic\<close> as
  it does for \<^verbatim>\<open>periodic=False\<close>; the regridder it returns is not periodic, and its
  default file name is the plain one and does not end in \<^verbatim>\<open>_peri.nc\<close>.
\<close>

theorem conservative_never_periodic:
  "Regridder_init B ds_in ds_out ''conservative'' periodic filename reuse_weights
       lat_in lon_in lat_b_in lon_b_in lat_out lon_out lat_b_out lon_b_out w
     = Regridder_init B ds_in ds_out ''conservative'' False filename reuse_weights
         lat_in lon_in lat_b_in lon_b_in lat_out lon_out lat_b_out lon_b_out w
   \<and> (Regridder_init B ds_in ds_out ''conservative'' periodic filename reuse_weights
         lat_in lon_in lat_b_in lon_b_in lat_out lon_out lat_b_out lon_b_out w = (w', Inr self)
      \<longrightarrow> \<not> self_periodic self
          \<and> (filename = None \<longrightarrow>
               self_filename self
                 = ''conservative_'' @ str_nat (self_Ny_in self) @ ''x'' @ str_nat (self_Nx_in self)
                   @ ''_'' @ str_nat (self_Ny_out self) @ ''x'' @ str_nat (self_Nx_out self) @ ''.nc''
               \<and> \<not> suffix ''_peri.nc'' (self_filename self)))"
proof (intro conjI impI)
  show "Regridder_init B ds_in ds_out ''conservative'' periodic filename reuse_weights
       lat_in lon_in lat_b_in lon_b_in lat_out lon_out lat_b_out lon_b_out w
     = Regridder_init B ds_in ds_out ''conservative'' False filename reuse_weights
         lat_in lon_in lat_b_in lon_b_in lat_out lon_out lat_b_out lon_b_out w"
    by (simp add: Regridder_init_def)
next
  assume init: "Regridder_init B ds_in ds_out ''conservative'' periodic filename reuse_weights
         lat_in lon_in lat_b_in lon_b_in lat_out lon_out lat_b_out lon_b_out w = (w', Inr self)"
  from Regridder_init_Inr[OF init]
  have p: "\<not> self_periodic self" and m: "self_method self = ''conservative''"
    and f: "self_filename self = (case filename of None \<Rightarrow> get_default_filename self | Some f \<Rightarrow> f)"
    by auto
  show "\<not> self_periodic self" by (rule p)
  assume "filename = None"
  with f p m have eq: "self_filename self
                 = ''conservative_'' @ str_nat (self_Ny_in self) @ ''x'' @ str_nat (self_Nx_in self)
                   @ ''_'' @ str_nat (self_Ny_out self) @ ''x'' @ str_nat (self_Nx_out self) @ ''.nc''"
    by (simp add: get_default_filename_def)
  then show "self_filename self
                 = ''conservative_'' @ str_nat (self_Ny_in self) @ ''x'' @ str_nat (self_Nx_in self)
                   @ ''_'' @ str_nat (self_Ny_out self) @ ''x'' @ str_nat (self_Nx_out self) @ ''.nc''" .
  from no_peri_suffix[of "''conservative_'' @ str_nat (self_Ny_in self) @ ''x'' @ str_nat (self_Nx_in self)
                   @ ''_'' @ str_nat (self_Ny_out self) @ ''x''" "self_Nx_out self"]
  show "\<not> suffix ''_peri.nc'' (self_filename self)"
    unfolding eq by simp
qed

section \<open>Default file name\<close>

lemma resolve_names_Inr:
  assumes "resolve_names ds boundary lat lon w = (w', Inr (a, b))"
  shows "w' = w \<and> resolve_names ds boundary lat lon v = (v, Inr (a, b)) \<and> (a \<noteq> None \<or> b \<noteq> None)"
  using assms
  by (auto simp: resolve_names_def andthen_def get_latlon_name_def print_def emit_def ret_def raise_def
      split: if_splits sum.splits py_error.splits prod.splits)

lemma as_2d_mesh_extents:
  assumes "as_2d_mesh lon lat = Inr (lon2, lat2)" "shape lon2 = [ny, nx]"
  shows "shape lon = [nx] \<and> shape lat = [ny] \<or> shape lon = [ny, nx] \<and> shape lat = [ny, nx]"
  using assms
  by (cases "shape lon"; cases "shape lat")
     (auto simp: as_2d_mesh_def ndim_def meshgrid_def Let_def split: if_splits)

lemma ds_to_ESMFgrid_Inr:
  assumes "ds_to_ESMFgrid B ds need_bounds lat lon lat_b lon_b periodic w = (w', Inr (g, sh))"
      and "lat \<noteq> None \<or> lon \<noteq> None"
  shows "\<exists>lon_v lat_v lon2 lat2.
           getitem ds lon = Inr lon_v \<and> getitem ds lat = Inr lat_v
         \<and> as_2d_mesh (var_values lon_v) (var_values lat_v) = Inr (lon2, lat2) \<and> sh = shape lon2"
proof -
  from assms(2) have "\<not> (lat = None \<and> lon = None)" by simp
  with assms(1) show ?thesis
    unfolding ds_to_ESMFgrid_def
    by (simp only: if_False andthen_ret prod.case) (elim andthen_InrE, clarsimp simp: split_def, elim andthen_InrE, auto simp: split_def)
qed

lemma unpack2_Inr: "unpack2 sh = Inr (a, b) \<longleftrightarrow> sh = [a, b]"
  by (auto simp: unpack2_def split: list.splits)

lemma Regridder_init_grids:
  fixes w :: "'a::semiring_1 world"
  assumes "Regridder_init B ds_in ds_out method periodic filename reuse_weights
             lat_in lon_in lat_b_in lon_b_in lat_out lon_out lat_b_out lon_b_out w = (w', Inr self)"
  shows "(\<exists>w1. resolve_names ds_in False lat_in lon_in w
                 = (w1, Inr (self_lat_name_in self, self_lon_name_in self)))
    \<and> (\<exists>(w2 :: 'a world) w3. resolve_names ds_out False lat_out lon_out w2
                 = (w3, Inr (self_lat_name_out self, self_lon_name_out self)))
    \<and> (\<exists>w4 w5 nb p lat_b lon_b g.
          ds_to_ESMFgrid B ds_in nb (self_lat_name_in self) (self_lon_name_in self) lat_b lon_b p w4
            = (w5, Inr (g, [self_Ny_in self, self_Nx_in self])))
    \<and> (\<exists>w4 w5 nb p lat_b lon_b g.
          ds_to_ESMFgrid B ds_out nb (self_lat_name_out self) (self_lon_name_out self) lat_b lon_b p w4
            = (w5, Inr (g, [self_Ny_out self, self_Nx_out self])))"
  using assms unfolding Regridder_init_def Let_def
  apply (cases filename; cases "method = ''conservative''";
      elim andthen_InrE; clarsimp simp: split_def; elim andthen_InrE;
      clarsimp simp: split_def unpack2_Inr)
     apply (intro conjI; intro exI; assumption)+
  done

lemma length_ramp [simp]: "length (ramp n) = n"
  by (simp add: ramp_def)

lemma rect_names:
  "resolve_names (rect_grid ny nx) False None None w = (w, Inr (Some ''lat'', Some ''lon''))"
  "resolve_names (rect_grid ny nx) True None None w = (w, Inr (Some ''lat_b'', Some ''lon_b''))"
  by (simp_all add: resolve_names_def rect_grid_def get_latlon_name_Dataset
      get_latlon_name_Dataset_boundary andthen_def)

lemma rect_getitem:
  "getitem (rect_grid ny nx) (Some ''lon'') = Inr (vector ''lon'' (ramp nx))"
  "getitem (rect_grid ny nx) (Some ''lat'') = Inr (vector ''lat'' (ramp ny))"
  by (simp_all add: getitem_def items_def rect_grid_def)

lemma rect_esmf_grid:
  "ds_to_ESMFgrid ex_backend (rect_grid ny nx) False (Some ''lat'') (Some ''lon'') (Some ''lat_b'') (Some ''lon_b'') p w
     = (w\<lparr>trace := trace w @ [Call_esmf_grid]\<rparr>, Inr ((), [ny, nx]))"
  by (simp add: ds_to_ESMFgrid_def rect_getitem ex_backend_def vector_def
      as_2d_mesh_def ndim_def meshgrid_def call_esmf_grid_def andthen_def)

lemma rect_init:
  "\<exists>w' self. Regridder_init ex_backend (rect_grid 400 600) (rect_grid 300 400) ''bilinear'' False None False
       None None None None None None None None world0 = (w', Inr self)"
  by (simp add: Regridder_init_def Let_def rect_names rect_getitem rect_esmf_grid ex_build
      init_horiz_dims_def try_dims_def unpack2_def get_default_filename_def
      write_weight_file_def read_weights_def call_esmf_regrid_build_def call_esmf_regrid_finalize_def
      andthen_def ndim_def vector_def world0_def)

text \<open>
  C8: when the constructor is given no \<^verbatim>\<open>filename\<close> and returns, the file name of the
  regridder is \<^verbatim>\<open>{method}_{Ny_in}x{Nx_in}_{Ny_out}x{Nx_out}\<close> followed by \<^verbatim>\<open>_peri.nc\<close>
  when the grid is taken as periodic (\<^verbatim>\<open>periodic\<close> given and the method not conservative)
  and by \<^verbatim>\<open>.nc\<close> otherwise. The method is the one given, and the extents are those of
  the grids given: the longitude and latitude of each grid are looked up under the names
  given, or under the names the locator finds, and \<^verbatim>\<open>Ny\<close>, \<^verbatim>\<open>Nx\<close> are the lengths of the
  latitude and of the longitude when they are vectors, and their common shape when they
  are 2-D. For bilinear, 400 x 600 to 300 x 400, not periodic, the name is
  \<^verbatim>\<open>bilinear_400x600_300x400.nc\<close>.
\<close>

theorem default_filename_format:
  fixes w :: "'a::semiring_1 world"
  assumes init: "Regridder_init B ds_in ds_out method periodic None reuse_weights
         lat_in lon_in lat_b_in lon_b_in lat_out lon_out lat_b_out lon_b_out w = (w', Inr self)"
  shows "\<exists>lon_i lat_i lon_o lat_o Ny_in Nx_in Ny_out Nx_out.
      resolve_names ds_in False lat_in lon_in w = (w, Inr (self_lat_name_in self, self_lon_name_in self))
    \<and> resolve_names ds_out False lat_out lon_out w = (w, Inr (self_lat_name_out self, self_lon_name_out self))
    \<and> getitem ds_in (self_lon_name_in self) = Inr lon_i
    \<and> getitem ds_in (self_lat_name_in self) = Inr lat_i
    \<and> getitem ds_out (self_lon_name_out self) = Inr lon_o
    \<and> getitem ds_out (self_lat_name_out self) = Inr lat_o
    \<and> (shape (var_values lon_i) = [Nx_in] \<and> shape (var_values lat_i) = [Ny_in]
        \<or> shape (var_values lon_i) = [Ny_in, Nx_in] \<and> shape (var_values lat_i) = [Ny_in, Nx_in])
    \<and> (shape (var_values lon_o) = [Nx_out] \<and> shape (var_values lat_o) = [Ny_out]
        \<or> shape (var_values lon_o) = [Ny_out, Nx_out] \<and> shape (var_values lat_o) = [Ny_out, Nx_out])
    \<and> self_Ny_in self = Ny_in \<and> self_Nx_in self = Nx_in
    \<and> self_Ny_out self = Ny_out \<and> self_Nx_out self = Nx_out
    \<and> self_filename self
        = method @ ''_'' @ str_nat Ny_in @ ''x'' @ str_nat Nx_in
          @ ''_'' @ str_nat Ny_out @ ''x'' @ str_nat Nx_out
          @ (if method \<noteq> ''conservative'' \<and> periodic then ''_peri.nc'' else ''.nc'')"
proof -
  from Regridder_init_Inr[OF init]
  have f: "self_filename self = get_default_filename self"
    and m: "self_method self = method"
    and p: "self_periodic self = (method \<noteq> ''conservative'' \<and> periodic)"
    by auto
  from Regridder_init_grids[OF init] obtain w1 and w2 w3 :: "'a world"
    and w4 w5 nb p_in lat_bi lon_bi gi and w6 w7 nc po lat_bo lon_bo go where
    ni: "resolve_names ds_in False lat_in lon_in w
           = (w1, Inr (self_lat_name_in self, self_lon_name_in self))"
    and no: "resolve_names ds_out False lat_out lon_out w2
           = (w3, Inr (self_lat_name_out self, self_lon_name_out self))"
    and gi: "ds_to_ESMFgrid B ds_in nb (self_lat_name_in self) (self_lon_name_in self) lat_bi lon_bi p_in w4
            = (w5, Inr (gi, [self_Ny_in self, self_Nx_in self]))"
    and go: "ds_to_ESMFgrid B ds_out nc (self_lat_name_out self) (self_lon_name_out self) lat_bo lon_bo po w6
            = (w7, Inr (go, [self_Ny_out self, self_Nx_out self]))"
    by blast
  note ri = resolve_names_Inr[OF ni, of w]
  note ro = resolve_names_Inr[OF no, of w]
  from ds_to_ESMFgrid_Inr[OF gi] ri obtain lon_i lat_i lon2 lat2 where
    i: "getitem ds_in (self_lon_name_in self) = Inr lon_i"
       "getitem ds_in (self_lat_name_in self) = Inr lat_i"
       "as_2d_mesh (var_values lon_i) (var_values lat_i) = Inr (lon2, lat2)"
       "shape lon2 = [self_Ny_in self, self_Nx_in self]"
    by auto
  from ds_to_ESMFgrid_Inr[OF go] ro obtain lon_o lat_o lon3 lat3 where
    o: "getitem ds_out (self_lon_name_out self) = Inr lon_o"
       "getitem ds_out (self_lat_name_out self) = Inr lat_o"
       "as_2d_mesh (var_values lon_o) (var_values lat_o) = Inr (lon3, lat3)"
       "shape lon3 = [self_Ny_out self, self_Nx_out self]"
    by auto
  note ei = as_2d_mesh_extents[OF i(3,4)]
  note eo = as_2d_mesh_extents[OF o(3,4)]
  have n: "self_filename self
        = method @ ''_'' @ str_nat (self_Ny_in self) @ ''x'' @ str_nat (self_Nx_in self)
          @ ''_'' @ str_nat (self_Ny_out self) @ ''x'' @ str_nat (self_Nx_out self)
          @ (if method \<noteq> ''conservative'' \<and> periodic then ''_peri.nc'' else ''.nc'')"
    using m p by (simp add: f get_default_filename_def)
  from ri ro i(1,2) o(1,2) ei eo n show ?thesis by blast
qed

theorem init_weight_lifecycle_witness:
  "files ex_world ''bilinear_3x4_2x2.nc'' = Some [(1, 1, 1)]
   \<and> (\<exists>w' self. Regridder_init ex_backend ex_ds_in ex_ds_out ''bilinear'' False None True
          None None None None None None None None ex_world = (w', Inr self)
        \<and> files w' = files ex_world \<and> entries (self_A self) = [(1, 1, 1)]
        \<and> list_all benign (trace w'))
   \<and> (\<exists>w' self. Regridder_init ex_backend ex_ds_in ex_ds_out ''bilinear'' False None False
          None None None None None None None None ex_world = (w', Inr self)
        \<and> files w' ''bilinear_3x4_2x2.nc'' = Some [(0, 0, 1), (3, 11, 1)]
        \<and> entries (self_A self) = [(0, 0, 1), (3, 11, 1)])"
proof -
  have f: "files ex_world ''bilinear_3x4_2x2.nc'' = Some [(1, 1, 1)]"
    by (simp add: ex_world_def)
  have t: "trace ex_world = []"
    by (simp add: ex_world_def)
  from init_weight_lifecycle[OF ex_init_reuse] f t
  have 1: "list_all benign [Call_esmf_grid, Call_esmf_grid,
                             Print ''Reuse existing file: bilinear_3x4_2x2.nc'',
                             Call_read_weights ''bilinear_3x4_2x2.nc'' 12 4]"
    by (simp add: ex_self_def)
  from init_weight_lifecycle[OF ex_init_overwrite] f
  have 2: "esmf_regrid_build ex_backend () () ''bilinear'' = Inr [(0, 0, 1), (3, 11, 1)]"
    by (simp add: ex_self_def)
  show ?thesis
    using f 1 2 by (simp add: ex_init_reuse ex_init_overwrite ex_self_def)
qed

theorem conservative_never_periodic_witness:
  "Regridder_init ex_backend ex_ds_in ex_ds_out ''conservative'' True None False
       None None None None None None None None world0
     = (\<lparr>files = [''conservative_3x4_2x2.nc'' \<mapsto> [(0, 0, 1), (3, 11, 1)]],
         trace = [Call_esmf_grid, Call_add_corner, Call_esmf_grid, Call_add_corner,
                  Print ''Create weight file: conservative_3x4_2x2.nc'',
                  Call_esmf_regrid_build ''conservative'' ''conservative_3x4_2x2.nc'',
                  Call_esmf_regrid_finalize,
                  Call_read_weights ''conservative_3x4_2x2.nc'' 12 4]\<rparr>,
        Inr (ex_self ''conservative'' False))
   \<and> \<not> self_periodic (ex_self ''conservative'' False)
   \<and> self_filename (ex_self ''conservative'' False) = ''conservative_3x4_2x2.nc''
   \<and> \<not> suffix ''_peri.nc'' (self_filename (ex_self ''conservative'' False))"
proof -
  note t = conservative_never_periodic[THEN conjunct2, THEN mp, OF ex_init_conservative]
  from t show ?thesis
    by (simp add: ex_init_conservative) (simp add: ex_self_def str_nat.simps digit_char_def)
qed

theorem default_filename_format_witness:
  "\<exists>w' self.
      Regridder_init ex_backend (rect_grid 400 600) (rect_grid 300 400) ''bilinear'' False None False
          None None None None None None None None world0 = (w', Inr self)
    \<and> getitem (rect_grid 400 600) (self_lon_name_in self) = Inr (vector ''lon'' (ramp 600))
    \<and> getitem (rect_grid 400 600) (self_lat_name_in self) = Inr (vector ''lat'' (ramp 400))
    \<and> getitem (rect_grid 300 400) (self_lon_name_out self) = Inr (vector ''lon'' (ramp 400))
    \<and> getitem (rect_grid 300 400) (self_lat_name_out self) = Inr (vector ''lat'' (ramp 300))
    \<and> self_filename self = ''bilinear_400x600_300x400.nc''"
proof -
  from rect_init obtain w' self where
    init: "Regridder_init ex_backend (rect_grid 400 600) (rect_grid 300 400) ''bilinear'' False None False
          None None None None None None None None world0 = (w', Inr self)"
    by blast
  from default_filename_format[OF init] obtain lon_i lat_i lon_o lat_o Ny_in Nx_in Ny_out Nx_out where
    names: "self_lat_name_in self = Some ''lat''" "self_lon_name_in self = Some ''lon''"
           "self_lat_name_out self = Some ''lat''" "self_lon_name_out self = Some ''lon''"
    and vars: "getitem (rect_grid 400 600) (self_lon_name_in self) = Inr lon_i"
              "getitem (rect_grid 400 600) (self_lat_name_in self) = Inr lat_i"
              "getitem (rect_grid 300 400) (self_lon_name_out self) = Inr lon_o"
              "getitem (rect_grid 300 400) (self_lat_name_out self) = Inr lat_o"
    and ext: "shape (var_values lon_i) = [Nx_in] \<and> shape (var_values lat_i) = [Ny_in]
        \<or> shape (var_values lon_i) = [Ny_in, Nx_in] \<and> shape (var_values lat_i) = [Ny_in, Nx_in]"
        "shape (var_values lon_o) = [Nx_out] \<and> shape (var_values lat_o) = [Ny_out]
        \<or> shape (var_values lon_o) = [Ny_out, Nx_out] \<and> shape (var_values lat_o) = [Ny_out, Nx_out]"
    and name: "self_filename self
        = ''bilinear'' @ ''_'' @ str_nat Ny_in @ ''x'' @ str_nat Nx_in
          @ ''_'' @ str_nat Ny_out @ ''x'' @ str_nat Nx_out @ ''.nc''"
    by (auto simp: rect_names)
  from vars names have v: "lon_i = vector ''lon'' (ramp 600)" "lat_i = vector ''lat'' (ramp 400)"
      "lon_o = vector ''lon'' (ramp 400)" "lat_o = vector ''lat'' (ramp 300)"
    by (simp_all add: rect_getitem)
  from ext have "Ny_in = 400 \<and> Nx_in = 600 \<and> Ny_out = 300 \<and> Nx_out = 400"
    by (simp add: v vector_def)
  with name have "self_filename self = ''bilinear_400x600_300x400.nc''"
    by (simp add: str_nat.simps digit_char_def)
  with init vars v show ?thesis by blast
qed

section \<open>Destination dimension names\<close>

lemma init_horiz_dims_2d:
  assumes "ndim lon_out = 2"
  shows "init_horiz_dims ds_out lat_name lon_name lon_out =
           (let d = (case try_dims ds_out lon_name of Inr d \<Rightarrow> d | Inl e \<Rightarrow> PyTuple [PyStr ''y'', PyStr ''x''])
            in (Some d, Some d, Some d))"
  using assms by (simp add: init_horiz_dims_def)

lemma init_horiz_dims_1d_fallback:
  assumes "ndim lon_out = 1" "isl (try_dims ds_out lon_name) \<or> isl (try_dims ds_out lat_name)"
  shows "init_horiz_dims ds_out lat_name lon_name lon_out =
           (Some (name_val lon_name), Some (name_val lat_name),
            Some (PyTuple [name_val lat_name, name_val lon_name]))"
  using assms by (auto simp: init_horiz_dims_def split: sum.splits)

lemma init_horiz_dims_1d_native:
  assumes "ndim lon_out = 1"
      and "getitem ds_out lon_name = Inr vlon" "var_dims vlon = Some dlon"
      and "getitem ds_out lat_name = Inr vlat" "var_dims vlat = Some dlat"
  shows "init_horiz_dims ds_out lat_name lon_name lon_out =
           (Some (PyTuple (map PyStr dlon)), Some (PyTuple (map PyStr dlat)),
            Some (PyTuple [PyTuple (map PyStr dlat), PyTuple (map PyStr dlon)]))"
  using assms by (simp add: init_horiz_dims_def try_dims_def)

lemma ex_grid_out_1d:
  "ds_to_ESMFgrid ex_backend ex_ds_out_1d nb (Some ''lat'') (Some ''lon'') (Some ''lat_b'') (Some ''lon_b'') p w
     = (w\<lparr>trace := trace w @ (if nb then [Call_esmf_grid, Call_add_corner] else [Call_esmf_grid])\<rparr>,
        Inr ((), [2, 2]))"
  by (simp add: ds_to_ESMFgrid_def ex_ds_out_1d_def ex_backend_def getitem_def items_def vector_def
      as_2d_mesh_def ndim_def meshgrid_def call_esmf_grid_def call_add_corner_def andthen_def)

lemma ex_names_out_1d:
  "resolve_names ex_ds_out_1d False None None w = (w, Inr (Some ''lat'', Some ''lon''))"
  "resolve_names ex_ds_out_1d True None None w = (w, Inr (Some ''lat_b'', Some ''lon_b''))"
  by (simp_all add: resolve_names_def ex_ds_out_1d_def get_latlon_name_Dataset
      get_latlon_name_Dataset_boundary andthen_def)

lemma ex_getitem_out_1d:
  "getitem ex_ds_out_1d (Some ''lon'') = Inr (vector ''lon'' [0, 2])"
  "getitem ex_ds_out_1d (Some ''lat'') = Inr (vector ''lat'' [10, 30])"
  by (simp_all add: getitem_def items_def ex_ds_out_1d_def)

lemma ex_init_1d:
  "Regridder_init ex_backend ex_ds_in ex_ds_out_1d ''bilinear'' False None False
       None None None None None None None None world0
     = (\<lparr>files = [''bilinear_3x4_2x2.nc'' \<mapsto> [(0, 0, 1), (3, 11, 1)]],
         trace = [Call_esmf_grid, Call_esmf_grid,
                  Print ''Create weight file: bilinear_3x4_2x2.nc'',
                  Call_esmf_regrid_build ''bilinear'' ''bilinear_3x4_2x2.nc'',
                  Call_esmf_regrid_finalize,
                  Call_read_weights ''bilinear_3x4_2x2.nc'' 12 4]\<rparr>,
        Inr ex_self_1d)"
  by (simp add: Regridder_init_def Let_def ex_grid_in ex_grid_out_1d ex_names_out_1d ex_getitem_out_1d
      ex_build init_horiz_dims_def try_dims_def unpack2_def get_default_filename_def str_nat.simps
      digit_char_def write_weight_file_def read_weights_def call_esmf_regrid_build_def
      call_esmf_regrid_finalize_def andthen_def ndim_def ex_self_def ex_self_1d_def vector_def world0_def)

text \<open>
  C9: for a destination Dataset with 1-D \<^verbatim>\<open>lat\<close> and \<^verbatim>\<open>lon\<close> the constructor stores
  \<^verbatim>\<open>ds_out[name].dims\<close>, a 1-tuple, as \<^verbatim>\<open>lon_dim\<close> and \<^verbatim>\<open>lat_dim\<close>, so that
  \<^verbatim>\<open>horiz_dims\<close> is the pair of tuples \<^verbatim>\<open>(('lat',), ('lon',))\<close> and not the pair of
  names \<^verbatim>\<open>('lat', 'lon')\<close> that the fallback branch and the 2-D branch produce. The
  other branches are \<open>init_horiz_dims_2d\<close> and \<open>init_horiz_dims_1d_fallback\<close>.
\<close>

theorem horiz_dims_1d_dataset:
  "Regridder_init ex_backend ex_ds_in ex_ds_out_1d ''bilinear'' False None False
       None None None None None None None None world0
     = (\<lparr>files = [''bilinear_3x4_2x2.nc'' \<mapsto> [(0, 0, 1), (3, 11, 1)]],
         trace = [Call_esmf_grid, Call_esmf_grid,
                  Print ''Create weight file: bilinear_3x4_2x2.nc'',
                  Call_esmf_regrid_build ''bilinear'' ''bilinear_3x4_2x2.nc'',
                  Call_esmf_regrid_finalize,
                  Call_read_weights ''bilinear_3x4_2x2.nc'' 12 4]\<rparr>,
        Inr ((ex_self ''bilinear'' False)
              \<lparr>self_lon_out := \<lparr>shape = [2], data = [0, 2]\<rparr>,
               self_lat_out := \<lparr>shape = [2], data = [10, 30]\<rparr>,
               self_lon_dim := Some (PyTuple [PyStr ''lon'']),
               self_lat_dim := Some (PyTuple [PyStr ''lat'']),
               self_horiz_dims := Some (PyTuple [PyTuple [PyStr ''lat''], PyTuple [PyStr ''lon'']])\<rparr>))"
  by (simp add: Regridder_init_def Let_def ex_grid_in ex_grid_out_1d ex_names_out_1d ex_getitem_out_1d
      ex_build init_horiz_dims_def try_dims_def unpack2_def get_default_filename_def str_nat.simps
      digit_char_def write_weight_file_def read_weights_def call_esmf_regrid_build_def
      call_esmf_regrid_finalize_def andthen_def ndim_def ex_self_def vector_def world0_def)

section \<open>Regrid Applicator on labeled arrays\<close>

lemma coords_setitem_Inr:
  "coords_setitem dr key val = Inr dr' \<Longrightarrow>
     dr' = dr\<lparr>da_coords := (da_coords dr ++ (da_coords val)(key := None))(key \<mapsto> as_coord val)\<rparr>"
  by (auto simp: coords_setitem_def split: if_splits)

lemma coords_getitem_Inr:
  "coords_getitem dr key = Inr val \<Longrightarrow>
     \<exists>c. coord_var dr key = Inr c \<and> as_coord val = c \<and> da_coords val = along (c_dims c) (da_coords dr)"
  by (auto simp: coords_getitem_def as_coord_def split: sum.splits)

lemma coord_var_present: "da_coords dr k = Some c \<Longrightarrow> coord_var dr k = Inr c"
  by (simp add: coord_var_def)

lemma along_Some: "along dims cs k = Some v \<Longrightarrow> cs k = Some v"
  by (auto simp: along_def split: option.splits if_splits)

text \<open>
  A name is reached by the loop when it is a leading dimension, or a coordinate of the
  input that lies along one leading dimension only (a scalar coordinate among them).
\<close>

lemma copy_extra_coords_Inr:
  "copy_extra_coords dr_in dims dr0 = Inr dr' \<Longrightarrow>
     da_coords dr' k =
       (if k \<in> set dims
           \<or> (\<exists>d \<in> set dims. \<exists>c. coord_var dr_in d = Inr c \<and> along (c_dims c) (da_coords dr_in) k \<noteq> None)
        then (case coord_var dr_in k of Inr c \<Rightarrow> Some c | Inl e \<Rightarrow> None)
        else da_coords dr0 k)
     \<and> da_dims dr' = da_dims dr0 \<and> da_values dr' = da_values dr0
     \<and> da_name dr' = da_name dr0 \<and> da_attrs dr' = da_attrs dr0"
proof (induction dims arbitrary: dr0)
  case Nil
  then show ?case by simp
next
  case (Cons dim dims)
  from Cons.prems obtain val dr1 where
    g: "coords_getitem dr_in dim = Inr val"
    and s: "coords_setitem dr0 dim val = Inr dr1"
    and r: "copy_extra_coords dr_in dims dr1 = Inr dr'"
    by (auto split: sum.splits)
  from coords_getitem_Inr[OF g] obtain c where
    c: "coord_var dr_in dim = Inr c" "as_coord val = c" "da_coords val = along (c_dims c) (da_coords dr_in)"
    by blast
  from coords_setitem_Inr[OF s] c
  have dr1: "dr1 = dr0\<lparr>da_coords := (da_coords dr0 ++ (along (c_dims c) (da_coords dr_in))(dim := None))(dim \<mapsto> c)\<rparr>"
    by simp
  have brought: "along (c_dims c) (da_coords dr_in) k = Some v \<Longrightarrow> coord_var dr_in k = Inr v" for v
    by (auto dest: along_Some intro: coord_var_present)
  from Cons.IH[OF r] c(1) brought show ?case
    by (auto simp: dr1 map_add_def split: option.splits)
qed

lemma bind_sum_InrE:
  assumes "bind_sum v f = Inr y"
  obtains x where "v = Inr x" "f x = Inr y"
  using assms by (cases v) (auto simp: bind_sum_def)

lemma xr_DataArray_Inr:
  "xr_DataArray values dims name = Inr dr \<Longrightarrow>
     dr = \<lparr>da_values = values, da_dims = parse_dims dims (ndim values), da_name = name,
           da_coords = Map.empty, da_attrs = Map.empty\<rparr>"
  by (auto simp: xr_DataArray_def Let_def split: if_splits)

lemma attribute_Inr: "attribute n v = Inr x \<Longrightarrow> v = Some x"
  by (auto simp: attribute_def split: option.splits)

lemma tuple_add_Inr: "tuple_add t v = Inr d \<Longrightarrow> \<exists>u. v = PyTuple u \<and> d = PyTuple (t @ u)"
  by (auto simp: tuple_add_def split: pyval.splits)

lemma regrid_numpy_Inr:
  "regrid_numpy self indata w = (w', Inr outdata) \<Longrightarrow>
     outdata = apply_weights (self_A self) indata (self_Ny_out self) (self_Nx_out self)
     \<and> w' = w\<lparr>trace := trace w @ [Call_apply_weights (self_Ny_out self) (self_Nx_out self)]\<rparr>
     \<and> drop (length (shape indata) - 2) (shape indata) = [self_Ny_in self, self_Nx_in self]"
  by (auto simp: regrid_numpy_def Let_def call_apply_weights_def split: if_splits)

lemma regrid_dataarray_Inr:
  assumes ok: "regrid_dataarray self dr_in w = (w', Inr dr_out)"
      and extra: "extra_dims = take (length (da_dims dr_in) - 2) (da_dims dr_in)"
  obtains outdata w1 horiz dr0 lon_dim lon_c dr1 lat_dim lat_c dr2 dr3 where
    "regrid_numpy self (da_values dr_in) w = (w1, Inr outdata)"
    "self_horiz_dims self = Some (PyTuple horiz)"
    "xr_DataArray outdata (PyTuple (extra_dims @ horiz)) (da_name dr_in) = Inr dr0"
    "self_lon_dim self = Some lon_dim"
    "xr_DataArray (self_lon_out self) lon_dim None = Inr lon_c"
    "coords_setitem dr0 (name_val (self_lon_name_out self)) lon_c = Inr dr1"
    "self_lat_dim self = Some lat_dim"
    "xr_DataArray (self_lat_out self) lat_dim None = Inr lat_c"
    "coords_setitem dr1 (name_val (self_lat_name_out self)) lat_c = Inr dr2"
    "copy_extra_coords dr_in extra_dims dr2 = Inr dr3"
    "dr_out = dr3\<lparr>da_attrs := (da_attrs dr3)(''regrid_method'' \<mapsto> self_method self)\<rparr>"
proof -
  from ok obtain outdata w1 where
    rn: "regrid_numpy self (da_values dr_in) w = (w1, Inr outdata)"
    and rest: "lift
       (bind_sum (attribute ''horiz_dims'' (self_horiz_dims self)) (\<lambda>horiz_dims.
        bind_sum (tuple_add extra_dims horiz_dims) (\<lambda>dims.
        bind_sum (xr_DataArray outdata dims (da_name dr_in)) (\<lambda>dr_out.
        bind_sum (attribute ''lon_dim'' (self_lon_dim self)) (\<lambda>lon_dim.
        bind_sum (xr_DataArray (self_lon_out self) lon_dim None) (\<lambda>lon_c.
        bind_sum (coords_setitem dr_out (name_val (self_lon_name_out self)) lon_c) (\<lambda>dr_out.
        bind_sum (attribute ''lat_dim'' (self_lat_dim self)) (\<lambda>lat_dim.
        bind_sum (xr_DataArray (self_lat_out self) lat_dim None) (\<lambda>lat_c.
        bind_sum (coords_setitem dr_out (name_val (self_lat_name_out self)) lat_c) (\<lambda>dr_out.
        bind_sum (copy_extra_coords dr_in extra_dims dr_out) (\<lambda>dr_out.
        Inr (dr_out\<lparr>da_attrs := (da_attrs dr_out)(''regrid_method'' \<mapsto> self_method self)\<rparr>)))))))))))) w1
       = (w', Inr dr_out)"
    unfolding regrid_dataarray_def Let_def extra by (elim andthen_InrE) simp
  from rest obtain hd dims dr0 lon_dim lon_c dr1 lat_dim lat_c dr2 dr3 where
    1: "attribute ''horiz_dims'' (self_horiz_dims self) = Inr hd"
    and 2: "tuple_add extra_dims hd = Inr dims"
    and 3: "xr_DataArray outdata dims (da_name dr_in) = Inr dr0"
    and 4: "attribute ''lon_dim'' (self_lon_dim self) = Inr lon_dim"
    and 5: "xr_DataArray (self_lon_out self) lon_dim None = Inr lon_c"
    and 6: "coords_setitem dr0 (name_val (self_lon_name_out self)) lon_c = Inr dr1"
    and 7: "attribute ''lat_dim'' (self_lat_dim self) = Inr lat_dim"
    and 8: "xr_DataArray (self_lat_out self) lat_dim None = Inr lat_c"
    and 9: "coords_setitem dr1 (name_val (self_lat_name_out self)) lat_c = Inr dr2"
    and 10: "copy_extra_coords dr_in extra_dims dr2 = Inr dr3"
    and 11: "dr_out = dr3\<lparr>da_attrs := (da_attrs dr3)(''regrid_method'' \<mapsto> self_method self)\<rparr>"
    by (simp only: lift_apply prod.inject) (elim conjE bind_sum_InrE, auto)
  from tuple_add_Inr[OF 2] obtain horiz where hz: "hd = PyTuple horiz" "dims = PyTuple (extra_dims @ horiz)"
    by blast
  from rn attribute_Inr[OF 1] 3 attribute_Inr[OF 4] 5 6 attribute_Inr[OF 7] 8 9 10 11 hz
  show ?thesis by (intro that[of w1 outdata horiz dr0 lon_dim lon_c dr1 lat_dim lat_c dr2 dr3]) simp_all
qed

text \<open>
  What the labeled path has done when it returns: the attribute
  \<^verbatim>\<open>regrid_method\<close> is the method name, every coordinate of a leading dimension of the
  input is there as it was, and the coordinates are: under a name the loop reaches,
  what \<^verbatim>\<open>dr_in.coords\<close> has there; otherwise under the destination latitude name the
  destination latitude array, under the destination longitude name the destination
  longitude array; nothing else. The loop runs last, so what it reaches takes the name.
\<close>

lemma regrid_dataarray_returns:
  assumes ok: "regrid_dataarray self dr_in w = (w', Inr dr_out)"
      and extra: "extra_dims = take (length (da_dims dr_in) - 2) (da_dims dr_in)"
  shows "da_attrs dr_out ''regrid_method'' = Some (self_method self)
       \<and> (\<forall>dim \<in> set extra_dims. \<forall>c. da_coords dr_in dim = Some c \<longrightarrow> da_coords dr_out dim = Some c)
       \<and> (\<exists>lon_dim lat_dim horiz.
             self_lon_dim self = Some lon_dim \<and> self_lat_dim self = Some lat_dim
             \<and> self_horiz_dims self = Some (PyTuple horiz)
             \<and> da_dims dr_out = extra_dims @ horiz
             \<and> da_name dr_out = da_name dr_in
             \<and> (\<forall>k. da_coords dr_out k =
                   (if k \<in> set extra_dims
                       \<or> (\<exists>d \<in> set extra_dims. \<exists>c. coord_var dr_in d = Inr c
                              \<and> along (c_dims c) (da_coords dr_in) k \<noteq> None)
                    then (case coord_var dr_in k of Inr c \<Rightarrow> Some c | Inl e \<Rightarrow> None)
                    else if k = name_val (self_lat_name_out self) then
                      Some \<lparr>c_dims = parse_dims lat_dim (ndim (self_lat_out self)), c_values = self_lat_out self\<rparr>
                    else if k = name_val (self_lon_name_out self) then
                      Some \<lparr>c_dims = parse_dims lon_dim (ndim (self_lon_out self)), c_values = self_lon_out self\<rparr>
                    else None)))"
proof -
  from ok extra obtain outdata w1 horiz dr0 lon_dim lon_c dr1 lat_dim lat_c dr2 dr3 where
    1: "self_horiz_dims self = Some (PyTuple horiz)"
    and 3: "xr_DataArray outdata (PyTuple (extra_dims @ horiz)) (da_name dr_in) = Inr dr0"
    and 4: "self_lon_dim self = Some lon_dim"
    and 5: "xr_DataArray (self_lon_out self) lon_dim None = Inr lon_c"
    and 6: "coords_setitem dr0 (name_val (self_lon_name_out self)) lon_c = Inr dr1"
    and 7: "self_lat_dim self = Some lat_dim"
    and 8: "xr_DataArray (self_lat_out self) lat_dim None = Inr lat_c"
    and 9: "coords_setitem dr1 (name_val (self_lat_name_out self)) lat_c = Inr dr2"
    and 10: "copy_extra_coords dr_in extra_dims dr2 = Inr dr3"
    and 11: "dr_out = dr3\<lparr>da_attrs := (da_attrs dr3)(''regrid_method'' \<mapsto> self_method self)\<rparr>"
    by (rule regrid_dataarray_Inr)
  note d0 = xr_DataArray_Inr[OF 3]
  note dlon = xr_DataArray_Inr[OF 5]
  note dlat = xr_DataArray_Inr[OF 8]
  note d1 = coords_setitem_Inr[OF 6]
  note d2 = coords_setitem_Inr[OF 9]
  have copy: "\<And>k. da_coords dr3 k =
       (if k \<in> set extra_dims
           \<or> (\<exists>d \<in> set extra_dims. \<exists>c. coord_var dr_in d = Inr c \<and> along (c_dims c) (da_coords dr_in) k \<noteq> None)
        then (case coord_var dr_in k of Inr c \<Rightarrow> Some c | Inl e \<Rightarrow> None)
        else da_coords dr2 k)"
    and keep: "da_dims dr3 = da_dims dr2" "da_name dr3 = da_name dr2"
    using copy_extra_coords_Inr[OF 10] by auto
  have a: "da_attrs dr_out ''regrid_method'' = Some (self_method self)"
    by (simp add: 11)
  have b: "\<forall>dim \<in> set extra_dims. \<forall>c. da_coords dr_in dim = Some c \<longrightarrow> da_coords dr_out dim = Some c"
    by (simp add: 11 copy coord_var_present)
  have c: "\<forall>k. da_coords dr_out k =
                   (if k \<in> set extra_dims
                       \<or> (\<exists>d \<in> set extra_dims. \<exists>c. coord_var dr_in d = Inr c
                              \<and> along (c_dims c) (da_coords dr_in) k \<noteq> None)
                    then (case coord_var dr_in k of Inr c \<Rightarrow> Some c | Inl e \<Rightarrow> None)
                    else if k = name_val (self_lat_name_out self) then
                      Some \<lparr>c_dims = parse_dims lat_dim (ndim (self_lat_out self)), c_values = self_lat_out self\<rparr>
                    else if k = name_val (self_lon_name_out self) then
                      Some \<lparr>c_dims = parse_dims lon_dim (ndim (self_lon_out self)), c_values = self_lon_out self\<rparr>
                    else None)"
    by (auto simp: 11 copy d2 d1 d0 dlon dlat as_coord_def simp del: not_None_eq)
  have d: "da_dims dr_out = extra_dims @ horiz" "da_name dr_out = da_name dr_in"
    by (simp_all add: 11 keep d2 d1 d0 parse_dims_def)
  from 1 4 7 a b c d show ?thesis by blast
qed

lemma sizes_SomeD: "sizes dims sh k = Some n \<Longrightarrow> k \<in> set dims"
  by (auto simp: sizes_def dest!: map_of_SomeD dest: set_zip_leftD)

text \<open>
  When the constructor has stored 1-tuples (a labeled destination with 1-D coordinates),
  the labeled path raises for every input: the output array gets the tuples
  \<^verbatim>\<open>('lat',)\<close> and \<^verbatim>\<open>('lon',)\<close> as the names of its last two dimensions, and the
  destination longitude, an array along the dimension \<^verbatim>\<open>lon\<close>, cannot become a
  coordinate of an array that has no dimension of that name.
\<close>

lemma labeled_regrid_raises_1d:
  assumes h: "self_horiz_dims self = Some (PyTuple [PyTuple a, PyTuple b])"
      and l: "self_lon_dim self = Some (PyTuple [PyStr d])"
      and n: "PyStr d \<notin> set (take (length (da_dims dr_in) - 2) (da_dims dr_in))"
  shows "\<exists>e. snd (regrid_dataarray self dr_in w) = Inl e"
proof (cases "snd (regrid_dataarray self dr_in w)")
  case (Inl e)
  then show ?thesis by blast
next
  case (Inr dr_out)
  then have ok: "regrid_dataarray self dr_in w = (fst (regrid_dataarray self dr_in w), Inr dr_out)"
    by (simp add: prod_eq_iff)
  define extra_dims where "extra_dims = take (length (da_dims dr_in) - 2) (da_dims dr_in)"
  from ok extra_dims_def obtain outdata horiz dr0 lon_dim lon_c dr1 where
    1: "self_horiz_dims self = Some (PyTuple horiz)"
    and 3: "xr_DataArray outdata (PyTuple (extra_dims @ horiz)) (da_name dr_in) = Inr dr0"
    and 4: "self_lon_dim self = Some lon_dim"
    and 5: "xr_DataArray (self_lon_out self) lon_dim None = Inr lon_c"
    and 6: "coords_setitem dr0 (name_val (self_lon_name_out self)) lon_c = Inr dr1"
    by (rule regrid_dataarray_Inr)
  from 1 h have hz: "horiz = [PyTuple a, PyTuple b]" by simp
  from 4 l have ld: "lon_dim = PyTuple [PyStr d]" by simp
  from 3 have d0: "da_dims dr0 = extra_dims @ [PyTuple a, PyTuple b]"
    by (auto simp: xr_DataArray_def Let_def parse_dims_def hz split: if_splits)
  from 5 obtain m where lc: "da_dims lon_c = [PyStr d]" "shape (da_values lon_c) = [m]"
    by (cases "shape (self_lon_out self)")
       (auto simp: xr_DataArray_def Let_def parse_dims_def ld ndim_def split: if_splits)
  from 6 lc have "sizes (da_dims dr0) (shape (da_values dr0)) (PyStr d) = Some m"
    by (auto simp: coords_setitem_def split: if_splits)
  then have "PyStr d \<in> set (da_dims dr0)" by (rule sizes_SomeD)
  with d0 n show ?thesis by (simp add: extra_dims_def)
qed

text \<open>
  A run of the labeled path that returns: the regridder built from the destination with
  2-D coordinates, on an input along \<^verbatim>\<open>(time, lat, lon)\<close> that carries a second
  coordinate \<^verbatim>\<open>month\<close> along \<^verbatim>\<open>time\<close> and a scalar coordinate \<^verbatim>\<open>height\<close>.
\<close>

lemma labeled_regrid_example:
  "\<exists>w' dr_out.
      regrid_dataarray (ex_self ''bilinear'' False) ex_dr_in world0 = (w', Inr dr_out)
    \<and> da_attrs dr_out ''regrid_method'' = Some ''bilinear''
    \<and> da_dims dr_out = [PyStr ''time'', PyStr ''y'', PyStr ''x'']
    \<and> da_coords dr_out =
        [PyStr ''lon'' \<mapsto> \<lparr>c_dims = [PyStr ''y'', PyStr ''x''], c_values = \<lparr>shape = [2, 2], data = [0, 2, 0, 2]\<rparr>\<rparr>,
         PyStr ''lat'' \<mapsto> \<lparr>c_dims = [PyStr ''y'', PyStr ''x''], c_values = \<lparr>shape = [2, 2], data = [10, 10, 30, 30]\<rparr>\<rparr>,
         PyStr ''month'' \<mapsto> \<lparr>c_dims = [PyStr ''time''], c_values = \<lparr>shape = [5], data = [1, 1, 1, 2, 2]\<rparr>\<rparr>,
         PyStr ''height'' \<mapsto> \<lparr>c_dims = [], c_values = \<lparr>shape = [], data = [2]\<rparr>\<rparr>,
         PyStr ''time'' \<mapsto> \<lparr>c_dims = [PyStr ''time''], c_values = \<lparr>shape = [5], data = [100, 101, 102, 103, 104]\<rparr>\<rparr>]"
  by (auto simp: regrid_dataarray_def regrid_numpy_def call_apply_weights_def ex_dr_in_def ex_self_def
      Let_def andthen_def bind_sum_def attribute_def tuple_add_def xr_DataArray_def parse_dims_def
      ndim_def shape_apply_weights coords_setitem_def sizes_def as_coord_def name_val_def
      coords_getitem_def coord_var_def along_def map_add_def fun_eq_iff)

lemma andthen_snd_Inl: "snd (c w) = Inl e \<Longrightarrow> snd (andthen c f w) = Inl e"
  by (cases "c w") (auto simp: andthen_def)

lemma ex_numpy_1d:
  "\<exists>w2 y. regrid_numpy ex_self_1d (da_values ex_dr_in) w = (w2, Inr y)"
  by (simp add: regrid_numpy_def call_apply_weights_def ex_dr_in_def ex_self_1d_def ex_self_def
      Let_def andthen_def)

text \<open>
  C7: the labeled path does not attach the coordinates when the regridder was built from
  a destination Dataset with 1-D \<^verbatim>\<open>lat\<close> and \<^verbatim>\<open>lon\<close>: the constructor returns, the same
  regridder regrids the bare array of the input, and on the labeled input the call
  raises, so that no coordinate and no attribute is attached. This is the pair of
  1-tuples of C9 seen from the caller; it holds for every such regridder and every
  input (\<open>labeled_regrid_raises_1d\<close>). For the runs that return,
  \<open>regrid_dataarray_returns\<close> gives the attribute and the coordinates.
\<close>

theorem labeled_regrid_fails_1d_destination:
  "\<exists>w1 self w2 y e.
      Regridder_init ex_backend ex_ds_in ex_ds_out_1d ''bilinear'' False None False
          None None None None None None None None world0 = (w1, Inr self)
    \<and> Regridder_call self (Numpy (da_values ex_dr_in)) w1 = (w2, Inr (Numpy y))
    \<and> snd (Regridder_call self (Labeled ex_dr_in) w1) = Inl e"
proof -
  let ?w1 = "\<lparr>files = [''bilinear_3x4_2x2.nc'' \<mapsto> [(0, 0, 1), (3, 11, 1)]],
         trace = [Call_esmf_grid, Call_esmf_grid,
                  Print ''Create weight file: bilinear_3x4_2x2.nc'',
                  Call_esmf_regrid_build ''bilinear'' ''bilinear_3x4_2x2.nc'',
                  Call_esmf_regrid_finalize,
                  Call_read_weights ''bilinear_3x4_2x2.nc'' 12 4]\<rparr> :: int world"
  from ex_numpy_1d[of ?w1] obtain w2 y where
    a: "Regridder_call ex_self_1d (Numpy (da_values ex_dr_in)) ?w1 = (w2, Inr (Numpy y))"
    by (auto simp: Regridder_call_def andthen_def)
  have "\<exists>e. snd (regrid_dataarray ex_self_1d ex_dr_in ?w1) = Inl e"
    by (rule labeled_regrid_raises_1d[of _ "[PyStr ''lat'']" "[PyStr ''lon'']" "''lon''"])
       (simp_all add: ex_self_1d_def ex_dr_in_def)
  then obtain e where b: "snd (Regridder_call ex_self_1d (Labeled ex_dr_in) ?w1) = Inl e"
    by (auto simp: Regridder_call_def dest: andthen_snd_Inl)
  from ex_init_1d a b show ?thesis by blast
qed

theorem init_without_bounds_fails_witness:
  "Regridder_init ex_backend ex_ds_in ex_ds_plain ''bilinear'' False None False
       None None None None None None None None world0
     = (world0\<lparr>trace := [Print ''Must have coordinates compliant with NETCDF COARDS or CF conventions'']\<rparr>,
        Inl (UnboundLocalError ''lat_name''))"
proof -
  have l: "items ex_ds_plain ''lat_b'' = None \<and> items ex_ds_plain ''latitude_b'' = None"
    by (simp add: ex_ds_plain_def items_def)
  have n: "resolve_names ex_ds_plain False None None w = (w, Inr (Some ''lat'', Some ''lon''))" for w :: "int world"
    by (simp add: resolve_names_def ex_ds_plain_def get_latlon_name_Dataset andthen_def)
  have b: "resolve_names ex_ds_plain True None None w
             = (w\<lparr>trace := trace w @ [Print convention_message]\<rparr>, Inl (UnboundLocalError ''lat_name''))"
    for w :: "int world"
    by (simp add: resolve_names_def ex_ds_plain_def get_latlon_name_Dataset_boundary andthen_def)
  from init_without_bounds_fails[of ex_ds_in ex_ds_plain ex_backend "''bilinear''" False None False
      None None None None world0] l
  have "\<exists>w' e. Regridder_init ex_backend ex_ds_in ex_ds_plain ''bilinear'' False None False
       None None None None None None None None world0 = (w', Inl e)"
    by blast
  then show ?thesis
    by (simp add: Regridder_init_def Let_def andthen_def n b world0_def convention_message_def)
qed

end
